theory Spec2Isabelle
  imports Complex_Main "HOL-Library.AList"
begin

text \<open>
  A shallow embedding of the ACS extraction scripts: the bronze-layer notebook
  (\<^verbatim>\<open>ACS Notebook-Bronze Layer ETL.py\<close>), the all-geographies extraction script
  (\<^verbatim>\<open>acs5_2022_extraction_all_geos.py\<close>) and the single-county script
  (\<^verbatim>\<open># --- Environment Setup ---.py\<close>).
  The data service (\<^verbatim>\<open>censusdis\<close>) and the storage sink are external; they appear as
  parameters. Data frames are modelled column by column with an explicit index.
\<close>

section \<open>Variable codes\<close>

text \<open>
  Python's \<^verbatim>\<open>v.replace("E", "M")\<close> with a one-character pattern replaces every
  occurrence of that character.
\<close>

definition str_replace :: "char \<Rightarrow> char \<Rightarrow> string \<Rightarrow> string" where
  "str_replace old new s = map (\<lambda>c. if c = old then new else c) s"

text \<open>
  \<^verbatim>\<open>moe_codes = [v.replace("E", "M") for v in var_codes]\<close> (bronze notebook, Step 3) and
  \<^verbatim>\<open>table_moes = [v.replace("E", "M") for v in table_vars]\<close> (extraction script).
\<close>

definition moe_codes :: "string list \<Rightarrow> string list" where
  "moe_codes var_codes = map (str_replace CHR ''E'' CHR ''M'') var_codes"

text \<open>
  The extraction script's \<^verbatim>\<open>MOE_VAR\<close> column,
  \<^verbatim>\<open>str.replace("E$", "M", regex=True)\<close>: only an \<open>E\<close> at the end of the code is replaced.
\<close>

definition moe_var_regex :: "string \<Rightarrow> string" where
  "moe_var_regex s = (if s \<noteq> [] \<and> last s = CHR ''E'' then butlast s @ ''M'' else s)"


text \<open>
  The extraction script keeps only the variables whose code matches
  \<^verbatim>\<open>acs_pattern = re.compile(r'^[A-Z]+\d+_\d+[EM]$')\<close>: capital letters, digits, an
  underscore, digits, and \<open>E\<close> or \<open>M\<close> at the end (\<^verbatim>\<open>$\<close> also matches before a final
  newline). The letter and digit classes are disjoint, so the longest runs decide the
  match.
\<close>

definition is_capital :: "char \<Rightarrow> bool" where
  "is_capital c = (c \<in> set ''ABCDEFGHIJKLMNOPQRSTUVWXYZ'')"

definition is_digit :: "char \<Rightarrow> bool" where
  "is_digit c = (c \<in> set ''0123456789'')"

definition acs_pattern :: "string \<Rightarrow> bool" where
  "acs_pattern s =
     (let letters = takeWhile is_capital s; r1 = dropWhile is_capital s;
          table_digits = takeWhile is_digit r1; r2 = dropWhile is_digit r1
      in letters \<noteq> [] \<and> table_digits \<noteq> [] \<and>
         (case r2 of
            [] \<Rightarrow> False
          | u # r3 \<Rightarrow>
              u = CHR ''_'' \<and> takeWhile is_digit r3 \<noteq> [] \<and>
              dropWhile is_digit r3 \<in> set [''E'', ''M'', [CHR ''E'', CHR 0x0A], [CHR ''M'', CHR 0x0A]]))"

section \<open>Chunking of the variable list\<close>

definition MAX_VARS_PER_CALL :: nat where
  "MAX_VARS_PER_CALL = 50"

text \<open>
  \<^verbatim>\<open>for i in range(0, len(vars_list), MAX_VARS_PER_CALL):
    chunk_vars = vars_list[i:i+MAX_VARS_PER_CALL]\<close>
  The list of the slices the loop visits, in order, from loop index \<open>i\<close> on.
\<close>

function chunks_from :: "nat \<Rightarrow> 'a list \<Rightarrow> 'a list list" where
  "chunks_from i xs =
     (if i < length xs
      then take MAX_VARS_PER_CALL (drop i xs) # chunks_from (i + MAX_VARS_PER_CALL) xs
      else [])"
  by pat_completeness auto
termination
  by (relation "measure (\<lambda>(i, xs). length xs - i)") (auto simp: MAX_VARS_PER_CALL_def)

definition chunk_vars :: "'a list \<Rightarrow> 'a list list" where
  "chunk_vars xs = chunks_from 0 xs"

section \<open>Errors\<close>

datatype error =
    ValueError | KeyError | IndexError | TypeError | NameError | AttributeError
  | ReadTimeout | ServiceError | SinkError

text \<open>Sequencing of steps that may raise: the first error ends the computation.\<close>

definition thn :: "error + 'a \<Rightarrow> ('a \<Rightarrow> error + 'b) \<Rightarrow> error + 'b" where
  "thn r f = (case r of Inl e \<Rightarrow> Inl e | Inr x \<Rightarrow> f x)"

section \<open>Cell values\<close>

text \<open>
  What the data service delivers in a cell: text, a boundary geometry object (carried
  by its well-known text), Python's \<^verbatim>\<open>None\<close>, or the missing marker \<^verbatim>\<open>NaN\<close> that a join
  fills in.
\<close>

datatype raw = Text string | Geometry string | PyNone | PyNaN

text \<open>
  A \<^verbatim>\<open>float64\<close> value. Finite values are idealised as exact rationals (rounding,
  overflow and the sign of zero are not modelled); the three special values are kept,
  since they are what a division by zero or a failed coercion produces.
\<close>

datatype val = Fin rat | PInf | NInf | NaN

datatype cell = Obj raw | Num val

text \<open>\<^verbatim>\<open>str(x)\<close>, as \<^verbatim>\<open>astype(str)\<close> applies it to each cell.\<close>

fun py_str :: "raw \<Rightarrow> string" where
  "py_str (Text s) = s"
| "py_str (Geometry g) = g"
| "py_str PyNone = ''None''"
| "py_str PyNaN = ''nan''"

text \<open>
  \<^verbatim>\<open>str.zfill(width)\<close>: a string already \<open>width\<close> long or longer is returned as it is;
  a shorter one is padded with zeros on the left, after a leading sign.
\<close>

definition zfill :: "nat \<Rightarrow> string \<Rightarrow> string" where
  "zfill width s =
     (if width \<le> length s then s
      else (case s of
              [] \<Rightarrow> replicate width CHR ''0''
            | c # cs \<Rightarrow>
                if c = CHR ''+'' \<or> c = CHR ''-''
                then c # replicate (width - length s) CHR ''0'' @ cs
                else replicate (width - length s) CHR ''0'' @ s))"

subsection \<open>Float arithmetic on the special values\<close>

fun fdiv :: "val \<Rightarrow> val \<Rightarrow> val" where
  "fdiv NaN y = NaN"
| "fdiv x NaN = NaN"
| "fdiv (Fin a) (Fin b) =
     (if b = 0 then (if a = 0 then NaN else if 0 < a then PInf else NInf) else Fin (a / b))"
| "fdiv (Fin a) PInf = Fin 0"
| "fdiv (Fin a) NInf = Fin 0"
| "fdiv PInf (Fin b) = (if b < 0 then NInf else PInf)"
| "fdiv NInf (Fin b) = (if b < 0 then PInf else NInf)"
| "fdiv PInf PInf = NaN"
| "fdiv PInf NInf = NaN"
| "fdiv NInf PInf = NaN"
| "fdiv NInf NInf = NaN"

fun fmul :: "val \<Rightarrow> val \<Rightarrow> val" where
  "fmul NaN y = NaN"
| "fmul x NaN = NaN"
| "fmul (Fin a) (Fin b) = Fin (a * b)"
| "fmul (Fin a) PInf = (if a = 0 then NaN else if 0 < a then PInf else NInf)"
| "fmul (Fin a) NInf = (if a = 0 then NaN else if 0 < a then NInf else PInf)"
| "fmul PInf (Fin b) = (if b = 0 then NaN else if 0 < b then PInf else NInf)"
| "fmul NInf (Fin b) = (if b = 0 then NaN else if 0 < b then NInf else PInf)"
| "fmul PInf PInf = PInf"
| "fmul PInf NInf = NInf"
| "fmul NInf PInf = NInf"
| "fmul NInf NInf = PInf"

text \<open>
  The standard error \<^verbatim>\<open>moe / 1.645\<close> and the coefficient of variation
  \<^verbatim>\<open>(moe / 1.645) / est * 100.0\<close> of one record. No branch tests the estimate.
\<close>

definition se_value :: "val \<Rightarrow> val" where
  "se_value moe = fdiv moe (Fin (1645 / 1000))"

definition cv_value :: "val \<Rightarrow> val \<Rightarrow> val" where
  "cv_value moe est = fmul (fdiv (fdiv moe (Fin (1645 / 1000))) est) (Fin 100)"

text \<open>A value is missing when it is \<open>NaN\<close>.\<close>

definition is_missing :: "val \<Rightarrow> bool" where
  "is_missing v = (v = NaN)"

subsection \<open>Numeric coercion\<close>

text \<open>
  \<^verbatim>\<open>pd.to_numeric(..., errors="coerce")\<close> on one cell. The service delivers integers and
  decimals as text: an optional sign and digits with at most one decimal point
  (\<^verbatim>\<open>42\<close>, \<^verbatim>\<open>-7\<close>, \<^verbatim>\<open>12.5\<close>, \<^verbatim>\<open>.5\<close>, \<^verbatim>\<open>3.\<close>). Whatever does not parse becomes \<open>NaN\<close>;
  exponents, surrounding blanks and the spellings of infinity are not modelled.
\<close>

definition digit_of :: "char \<Rightarrow> nat option" where
  "digit_of c = map_of (zip ''0123456789'' [0 ..< 10]) c"

fun digits_val :: "nat \<Rightarrow> string \<Rightarrow> nat option" where
  "digits_val acc [] = Some acc"
| "digits_val acc (c # cs) =
     (case digit_of c of None \<Rightarrow> None | Some d \<Rightarrow> digits_val (10 * acc + d) cs)"

definition parse_unsigned :: "string \<Rightarrow> rat option" where
  "parse_unsigned s =
     (let ip = takeWhile (\<lambda>c. c \<noteq> CHR ''.'') s; rest = dropWhile (\<lambda>c. c \<noteq> CHR ''.'') s;
          fp = tl rest
      in if ip = [] \<and> fp = [] then None
         else (case digits_val 0 ip of
                 None \<Rightarrow> None
               | Some n \<Rightarrow>
                   (case digits_val 0 fp of
                      None \<Rightarrow> None
                    | Some f \<Rightarrow> Some (of_nat n + of_nat f / 10 ^ length fp))))"

definition parse_number :: "string \<Rightarrow> rat option" where
  "parse_number s =
     (case s of
        [] \<Rightarrow> None
      | c # cs \<Rightarrow>
          if c = CHR ''-'' then map_option uminus (parse_unsigned cs)
          else if c = CHR ''+'' then parse_unsigned cs
          else parse_unsigned s)"

fun to_numeric :: "raw \<Rightarrow> val" where
  "to_numeric (Text s) = (case parse_number s of None \<Rightarrow> NaN | Some q \<Rightarrow> Fin q)"
| "to_numeric (Geometry g) = NaN"
| "to_numeric PyNone = NaN"
| "to_numeric PyNaN = NaN"

section \<open>Data frames\<close>

text \<open>
  An index label is a row position (the default \<^verbatim>\<open>RangeIndex\<close> of a downloaded frame) or
  the value of the column that \<^verbatim>\<open>set_index\<close> turned into the index.
\<close>

datatype label = Pos nat | Key raw

text \<open>
  A frame: the name of its index (\<open>None\<close> for the default index), the index labels,
  and the columns in order, each with its values. In a well-formed frame the column
  names are distinct and every column is as long as the index.
\<close>

datatype 'c frame =
  Frame (iname: "string option") (index: "label list") (cols: "(string \<times> 'c list) list")

definition columns :: "'c frame \<Rightarrow> string list" where
  "columns df = map fst (cols df)"

definition wf_frame :: "'c frame \<Rightarrow> bool" where
  "wf_frame df =
     (distinct (columns df) \<and> list_all (\<lambda>p. length (snd p) = length (index df)) (cols df))"

text \<open>\<^verbatim>\<open>df[c]\<close>; a missing column raises \<^verbatim>\<open>KeyError\<close>.\<close>

definition get_col :: "'c frame \<Rightarrow> string \<Rightarrow> error + 'c list" where
  "get_col df c = (case map_of (cols df) c of None \<Rightarrow> Inl KeyError | Some vs \<Rightarrow> Inr vs)"

text \<open>\<^verbatim>\<open>df[c] = values\<close>: an existing column is overwritten in place, a new one is appended.\<close>

definition set_col :: "'c frame \<Rightarrow> string \<Rightarrow> 'c list \<Rightarrow> 'c frame" where
  "set_col df c vs = Frame (iname df) (index df) (AList.update c vs (cols df))"

text \<open>\<^verbatim>\<open>df.set_index(c, inplace=True)\<close>: the column leaves the columns and becomes the index.\<close>

definition set_index :: "raw frame \<Rightarrow> string \<Rightarrow> error + raw frame" where
  "set_index df c =
     thn (get_col df c)
       (\<lambda>vs. Inr (Frame (Some c) (map Key vs) (filter (\<lambda>p. fst p \<noteq> c) (cols df))))"

text \<open>\<^verbatim>\<open>df.rename(columns={old: new}, inplace=True)\<close>.\<close>

definition rename_col :: "'c frame \<Rightarrow> string \<Rightarrow> string \<Rightarrow> 'c frame" where
  "rename_col df old new =
     Frame (iname df) (index df) (map (\<lambda>p. (if fst p = old then new else fst p, snd p)) (cols df))"

text \<open>\<^verbatim>\<open>df[c] = df[c].astype(str).str.zfill(w)\<close>.\<close>

definition zfill_col :: "raw frame \<Rightarrow> string \<Rightarrow> nat \<Rightarrow> error + raw frame" where
  "zfill_col df c w =
     thn (get_col df c) (\<lambda>vs. Inr (set_col df c (map (\<lambda>v. Text (zfill w (py_str v))) vs)))"

text \<open>Element-wise \<^verbatim>\<open>+\<close> of two object columns: strings are concatenated.\<close>

fun add_raw :: "raw \<Rightarrow> raw \<Rightarrow> error + raw" where
  "add_raw (Text a) (Text b) = Inr (Text (a @ b))"
| "add_raw x y = Inl TypeError"

fun add_cols :: "raw list \<Rightarrow> raw list \<Rightarrow> error + raw list" where
  "add_cols (x # xs) (y # ys) =
     thn (add_raw x y) (\<lambda>z. thn (add_cols xs ys) (\<lambda>zs. Inr (z # zs)))"
| "add_cols xs ys = Inr []"

subsection \<open>Letter case and substrings\<close>

definition upper_letters :: string where
  "upper_letters = ''ABCDEFGHIJKLMNOPQRSTUVWXYZ''"

definition lower_letters :: string where
  "lower_letters = ''abcdefghijklmnopqrstuvwxyz''"

definition lower :: "string \<Rightarrow> string" where
  "lower s = map (\<lambda>c. case map_of (zip upper_letters lower_letters) c of None \<Rightarrow> c | Some d \<Rightarrow> d) s"

definition upper :: "string \<Rightarrow> string" where
  "upper s = map (\<lambda>c. case map_of (zip lower_letters upper_letters) c of None \<Rightarrow> c | Some d \<Rightarrow> d) s"

fun startswith :: "string \<Rightarrow> string \<Rightarrow> bool" where
  "startswith s [] = True"
| "startswith [] (p # ps) = False"
| "startswith (c # cs) (p # ps) = (c = p \<and> startswith cs ps)"

fun contains :: "string \<Rightarrow> string \<Rightarrow> bool" where
  "contains [] p = (p = [])"
| "contains (c # cs) p = (startswith (c # cs) p \<or> contains cs p)"

subsection \<open>Standardising the geography columns\<close>

text \<open>
  The tract block up to the assignment of \<^verbatim>\<open>GEOID\<close>:
  \<^verbatim>\<open>df["state"] = df["state"].astype(str).str.zfill(2)\<close>, likewise \<^verbatim>\<open>county\<close> (3) and
  \<^verbatim>\<open>tract\<close> (6), then \<^verbatim>\<open>df["GEOID"] = df["state"] + df["county"] + df["tract"]\<close>.
\<close>

definition geoid_tract :: "raw frame \<Rightarrow> error + raw frame" where
  "geoid_tract df =
     thn (zfill_col df ''state'' 2) (\<lambda>d1.
     thn (zfill_col d1 ''county'' 3) (\<lambda>d2.
     thn (zfill_col d2 ''tract'' 6) (\<lambda>d3.
     thn (get_col d3 ''state'') (\<lambda>s.
     thn (get_col d3 ''county'') (\<lambda>c.
     thn (add_cols s c) (\<lambda>sc.
     thn (get_col d3 ''tract'') (\<lambda>t.
     thn (add_cols sc t) (\<lambda>k. Inr (set_col d3 ''GEOID'' k)))))))))"

definition fips_county :: "raw frame \<Rightarrow> error + raw frame" where
  "fips_county df =
     thn (zfill_col df ''state'' 2) (\<lambda>d1.
     thn (zfill_col d1 ''county'' 3) (\<lambda>d2.
     thn (get_col d2 ''state'') (\<lambda>s.
     thn (get_col d2 ''county'') (\<lambda>c.
     thn (add_cols s c) (\<lambda>k. Inr (set_col d2 ''FIPS'' k))))))"

text \<open>
  The ZCTA block: \<^verbatim>\<open>geo_col = [c for c in df.columns if ...][0]\<close> raises \<^verbatim>\<open>IndexError\<close>
  when no column qualifies. The notebook tests \<^verbatim>\<open>c.lower().startswith("zip")\<close>, the
  extraction script \<^verbatim>\<open>"zip" in c.lower()\<close>; the test is the parameter \<open>is_zip\<close>.
  After \<^verbatim>\<open>df.rename(columns={geo_col: "ZCTA"})\<close> the frame may hold two columns named
  \<^verbatim>\<open>ZCTA\<close> (the renamed one and one that was there before); then \<^verbatim>\<open>df["ZCTA"]\<close> is a
  frame, not a column, and \<^verbatim>\<open>.astype(str).str\<close> raises \<^verbatim>\<open>AttributeError\<close>.
\<close>

definition zcta_block :: "(string \<Rightarrow> bool) \<Rightarrow> raw frame \<Rightarrow> error + raw frame" where
  "zcta_block is_zip df =
     (case filter (\<lambda>c. is_zip (lower c) \<or> upper c = ''ZCTA'') (columns df) of
        [] \<Rightarrow> Inl IndexError
      | geo_col # _ \<Rightarrow>
          (let renamed = rename_col df geo_col ''ZCTA'' in
           if 1 < length (filter (\<lambda>c. c = ''ZCTA'') (columns renamed)) then Inl AttributeError
           else thn (zfill_col renamed ''ZCTA'' 5) (\<lambda>d. set_index d ''ZCTA'')))"

text \<open>
  The block of the extraction script's \<^verbatim>\<open>fetch_data_chunk\<close> and of the notebook's
  \<^verbatim>\<open>else\<close> branch (every chunk after the first): each level ends with \<^verbatim>\<open>set_index\<close>.
  A level outside the four leaves the frame as it is (the chain has no \<^verbatim>\<open>else\<close>).
\<close>

definition standardize :: "(string \<Rightarrow> bool) \<Rightarrow> string \<Rightarrow> raw frame \<Rightarrow> error + raw frame" where
  "standardize is_zip geo_level df =
     (if geo_level = ''tract'' then thn (geoid_tract df) (\<lambda>d. set_index d ''GEOID'')
      else if geo_level = ''zcta'' then zcta_block is_zip df
      else if geo_level = ''county'' then thn (fips_county df) (\<lambda>d. set_index d ''FIPS'')
      else if geo_level = ''state'' then
        thn (zfill_col df ''state'' 2) (\<lambda>d. set_index d ''state'')
      else Inr df)"

text \<open>
  The notebook's block for the first chunk. Its tract branch ends with the assignment
  of \<^verbatim>\<open>GEOID\<close>: the \<^verbatim>\<open>set_index("GEOID", inplace=True)\<close> that follows on the same line
  stands behind the \<^verbatim>\<open>#\<close> of a comment and is never executed. The other three branches
  are those of \<open>standardize\<close>.
\<close>

definition standardize_first :: "string \<Rightarrow> raw frame \<Rightarrow> error + raw frame" where
  "standardize_first geo_level df =
     (if geo_level = ''tract'' then geoid_tract df
      else standardize (\<lambda>c. startswith c ''zip'') geo_level df)"

subsection \<open>Numeric coercion of the columns\<close>

text \<open>
  \<^verbatim>\<open>for col in df.columns: if col not in ("NAME", "geometry"):
    df[col] = pd.to_numeric(df[col], errors="coerce")\<close>
\<close>

definition passthrough :: "string \<Rightarrow> bool" where
  "passthrough c = (c = ''NAME'' \<or> c = ''geometry'')"

definition coerce_numeric :: "raw frame \<Rightarrow> cell frame" where
  "coerce_numeric df =
     Frame (iname df) (index df)
       (map (\<lambda>p. (fst p, if passthrough (fst p) then map Obj (snd p)
                          else map (\<lambda>v. Num (to_numeric v)) (snd p))) (cols df))"

subsection \<open>Left join on the index\<close>

text \<open>
  \<^verbatim>\<open>left.join(right, how="left")\<close>: with no suffix given, a column name that occurs on both
  sides raises \<^verbatim>\<open>ValueError\<close>. Otherwise every row of the left frame is kept, in order,
  once for each row of the right frame that carries the same index label, or once with
  the fill value in the right frame's columns when there is none.
\<close>

definition matches :: "label \<Rightarrow> label list \<Rightarrow> nat list" where
  "matches l ix = map fst (filter (\<lambda>p. snd p = l) (enumerate 0 ix))"

definition join_rows :: "label list \<Rightarrow> label list \<Rightarrow> (label \<times> nat \<times> nat option) list" where
  "join_rows lix rix =
     concat (map (\<lambda>p. case matches (snd p) rix of
                         [] \<Rightarrow> [(snd p, fst p, None)]
                       | js \<Rightarrow> map (\<lambda>j. (snd p, fst p, Some j)) js)
                 (enumerate 0 lix))"

definition join_left :: "'c \<Rightarrow> 'c frame \<Rightarrow> 'c frame \<Rightarrow> error + 'c frame" where
  "join_left fill l r =
     (if list_ex (\<lambda>c. c \<in> set (columns r)) (columns l) then Inl ValueError
      else
        let sel = join_rows (index l) (index r) in
        Inr (Frame (iname l) (map fst sel)
               (map (\<lambda>p. (fst p, map (\<lambda>q. snd p ! fst (snd q)) sel)) (cols l) @
                map (\<lambda>p. (fst p, map (\<lambda>q. case snd (snd q) of
                                              None \<Rightarrow> fill
                                            | Some j \<Rightarrow> snd p ! j) sel)) (cols r))))"

section \<open>The data service and the fetchers\<close>

text \<open>
  \<^verbatim>\<open>ced.download(dataset, year, variables, **params, with_geometry=True)\<close> is external.
  It is a parameter: given the number of requests issued before, the variables and the
  geography level (which fixes the wildcard parameters), it returns a frame or raises.
  The frames it returns are taken to be well formed (distinct column names, columns as
  long as the index). The requests issued are recorded in a log, in order.
\<close>

type_synonym service = "nat \<Rightarrow> string list \<Rightarrow> string \<Rightarrow> error + raw frame"

type_synonym request = "string list \<times> string"

definition geo_levels :: "string list" where
  "geo_levels = [''tract'', ''zcta'', ''county'', ''state'']"

subsection \<open>The notebook's \<^verbatim>\<open>fetch_geo_data\<close>\<close>

text \<open>
  The loop over the chunks. \<open>df_full\<close> is \<open>None\<close> before the first chunk. Nothing catches
  an exception: a failed download, a failed standardisation or a failed join ends the
  loop with that error.
\<close>

fun fetch_loop ::
  "service \<Rightarrow> string \<Rightarrow> string list list \<Rightarrow> raw frame option \<Rightarrow> request list
     \<Rightarrow> request list \<times> (error + raw frame option)" where
  "fetch_loop dl geo_level [] df_full reqs = (reqs, Inr df_full)"
| "fetch_loop dl geo_level (chunk # rest) df_full reqs =
     (case dl (length reqs) chunk geo_level of
        Inl e \<Rightarrow> (reqs @ [(chunk, geo_level)], Inl e)
      | Inr chunk_df \<Rightarrow>
          (case (case df_full of
                   None \<Rightarrow> standardize_first geo_level chunk_df
                 | Some full \<Rightarrow>
                     thn (standardize (\<lambda>c. startswith c ''zip'') geo_level chunk_df)
                       (\<lambda>r. join_left PyNaN full r)) of
             Inl e \<Rightarrow> (reqs @ [(chunk, geo_level)], Inl e)
           | Inr d \<Rightarrow> fetch_loop dl geo_level rest (Some d) (reqs @ [(chunk, geo_level)])))"

text \<open>
  An unsupported level raises \<^verbatim>\<open>ValueError\<close> before any request. With an empty variable
  list the loop body never runs and \<^verbatim>\<open>df_full.columns\<close> fails on \<^verbatim>\<open>None\<close>.
\<close>

definition fetch_geo_data ::
  "service \<Rightarrow> string list \<Rightarrow> string \<Rightarrow> request list \<Rightarrow> request list \<times> (error + cell frame)" where
  "fetch_geo_data dl vars_list geo_level reqs =
     (if geo_level \<notin> set geo_levels then (reqs, Inl ValueError)
      else (case fetch_loop dl geo_level (chunk_vars vars_list) None reqs of
              (reqs', Inl e) \<Rightarrow> (reqs', Inl e)
            | (reqs', Inr None) \<Rightarrow> (reqs', Inl AttributeError)
            | (reqs', Inr (Some d)) \<Rightarrow> (reqs', Inr (coerce_numeric d))))"

subsection \<open>The extraction script's \<^verbatim>\<open>fetch_data_chunk\<close>\<close>

definition fetch_data_chunk ::
  "service \<Rightarrow> string list \<Rightarrow> string \<Rightarrow> request list \<Rightarrow> request list \<times> (error + cell frame)" where
  "fetch_data_chunk dl variable_list geo_level reqs =
     (if geo_level \<notin> set geo_levels then (reqs, Inl ValueError)
      else (reqs @ [(variable_list, geo_level)],
            thn (dl (length reqs) variable_list geo_level) (\<lambda>df.
            thn (standardize (\<lambda>c. contains c ''zip'') geo_level df) (\<lambda>d.
            Inr (coerce_numeric d)))))"

section \<open>Reliability columns\<close>

text \<open>
  A cell as an operand of float arithmetic. In an object column a \<^verbatim>\<open>NaN\<close> divides like
  a float; text, geometry and \<^verbatim>\<open>None\<close> raise \<^verbatim>\<open>TypeError\<close>.
\<close>

fun as_float :: "cell \<Rightarrow> error + val" where
  "as_float (Num v) = Inr v"
| "as_float (Obj PyNaN) = Inr NaN"
| "as_float (Obj x) = Inl TypeError"

fun collect :: "(error + 'a) list \<Rightarrow> error + 'a list" where
  "collect [] = Inr []"
| "collect (r # rs) = thn r (\<lambda>x. thn (collect rs) (\<lambda>xs. Inr (x # xs)))"

text \<open>\<^verbatim>\<open>(df[moe_var] / 1.645) / df[est_var] * 100.0\<close>, row by row.\<close>

definition cv_column :: "cell list \<Rightarrow> cell list \<Rightarrow> error + cell list" where
  "cv_column ms es =
     collect (map (\<lambda>p. thn (as_float (fst p)) (\<lambda>m. thn (as_float (snd p)) (\<lambda>e.
                Inr (Num (cv_value m e))))) (zip ms es))"

text \<open>
  One pass of the loop body (notebook and extraction script alike):
  \<^verbatim>\<open>moe_var = est_var.replace("E", "M")
if est_var in df.columns and moe_var in df.columns:
    df[f"{est_var}_CV"] = (df[moe_var] / 1.645) / df[est_var] * 100.0\<close>
\<close>

definition cv_step :: "cell frame \<Rightarrow> string \<Rightarrow> error + cell frame" where
  "cv_step df est_var =
     (let moe_var = str_replace CHR ''E'' CHR ''M'' est_var in
      if est_var \<in> set (columns df) \<and> moe_var \<in> set (columns df)
      then thn (get_col df moe_var) (\<lambda>ms.
           thn (get_col df est_var) (\<lambda>es.
           thn (cv_column ms es) (\<lambda>cv. Inr (set_col df (est_var @ ''_CV'') cv))))
      else Inr df)"

fun cv_loop :: "cell frame \<Rightarrow> string list \<Rightarrow> error + cell frame" where
  "cv_loop df [] = Inr df"
| "cv_loop df (est_var # rest) = thn (cv_step df est_var) (\<lambda>d. cv_loop d rest)"

text \<open>
  The single-county script has no guard and stores the standard error as a column:
  \<^verbatim>\<open>df[se_col] = df[moe_col] / 1.645
df[cv_col] = (df[se_col] / df[estimate_col]) * 100\<close>
\<close>

definition se_cv_step :: "cell frame \<Rightarrow> string \<times> string \<Rightarrow> error + cell frame" where
  "se_cv_step df pair =
     (let estimate_col = fst pair; moe_col = snd pair;
          se_col = estimate_col @ ''_SE''; cv_col = estimate_col @ ''_CV'' in
      thn (get_col df moe_col) (\<lambda>ms.
      thn (collect (map as_float ms)) (\<lambda>mv.
      let df1 = set_col df se_col (map (\<lambda>m. Num (se_value m)) mv) in
      thn (get_col df1 se_col) (\<lambda>ss.
      thn (get_col df1 estimate_col) (\<lambda>es.
      thn (collect (map (\<lambda>p. thn (as_float (fst p)) (\<lambda>s. thn (as_float (snd p)) (\<lambda>e.
                     Inr (Num (fmul (fdiv s e) (Fin 100)))))) (zip ss es))) (\<lambda>cv.
      Inr (set_col df1 cv_col cv)))))))"

fun se_cv_loop :: "cell frame \<Rightarrow> (string \<times> string) list \<Rightarrow> error + cell frame" where
  "se_cv_loop df [] = Inr df"
| "se_cv_loop df (pair # rest) = thn (se_cv_step df pair) (\<lambda>d. se_cv_loop d rest)"

section \<open>The extraction script's main loop\<close>

definition RETRY_LIMIT :: nat where
  "RETRY_LIMIT = 3"

definition WAIT_BETWEEN_RETRIES :: nat where
  "WAIT_BETWEEN_RETRIES = 2"

text \<open>
  The state of the script: the requests issued, the durations passed to
  \<^verbatim>\<open>time.sleep\<close>, the module-level variable \<^verbatim>\<open>chunk_df\<close> (\<open>None\<close> while it is unbound) and
  the Parquet files written, by name.
\<close>

record script_state =
  st_requests :: "request list"
  st_sleeps :: "nat list"
  st_chunk_df :: "cell frame option"
  st_files :: "(string \<times> cell frame) list"

definition initial_state :: script_state where
  "initial_state = \<lparr>st_requests = [], st_sleeps = [], st_chunk_df = None, st_files = []\<rparr>"

text \<open>
  \<^verbatim>\<open>retries = RETRY_LIMIT
while retries > 0:
    try:
        chunk_df = fetch_data_chunk(chunk_vars, geo)
        break
    except ReadTimeout:
        retries -= 1
        time.sleep(WAIT_BETWEEN_RETRIES)\<close>
  Only \<^verbatim>\<open>ReadTimeout\<close> is caught; any other exception leaves the script. When the retries
  are used up the loop simply ends: nothing is raised and \<^verbatim>\<open>chunk_df\<close> keeps whatever it
  held before.
\<close>

fun retry_loop ::
  "service \<Rightarrow> string list \<Rightarrow> string \<Rightarrow> nat \<Rightarrow> script_state \<Rightarrow> script_state \<times> error option" where
  "retry_loop dl chunk geo 0 st = (st, None)"
| "retry_loop dl chunk geo (Suc retries) st =
     (case fetch_data_chunk dl chunk geo (st_requests st) of
        (reqs, Inr df) \<Rightarrow> (st\<lparr>st_requests := reqs, st_chunk_df := Some df\<rparr>, None)
      | (reqs, Inl e) \<Rightarrow>
          if e = ReadTimeout
          then retry_loop dl chunk geo retries
                 (st\<lparr>st_requests := reqs, st_sleeps := st_sleeps st @ [WAIT_BETWEEN_RETRIES]\<rparr>)
          else (st\<lparr>st_requests := reqs\<rparr>, Some e))"

text \<open>
  The loop over the chunks of one table and geography. After the retry loop,
  \<^verbatim>\<open>if geo_gdf is None: geo_gdf = chunk_df
else: geo_gdf = geo_gdf.join(chunk_df, how="left")\<close>
  reads \<^verbatim>\<open>chunk_df\<close>, which raises \<^verbatim>\<open>NameError\<close> only if it was never bound. The first
  branch makes \<^verbatim>\<open>geo_gdf\<close> the very object \<^verbatim>\<open>chunk_df\<close> names, the second a new frame:
  \<open>geo_gdf\<close> carries a flag that tells whether it is that object.
\<close>

fun chunk_loop ::
  "service \<Rightarrow> string \<Rightarrow> string list list \<Rightarrow> (cell frame \<times> bool) option \<Rightarrow> script_state
     \<Rightarrow> script_state \<times> (error + (cell frame \<times> bool) option)" where
  "chunk_loop dl geo [] geo_gdf st = (st, Inr geo_gdf)"
| "chunk_loop dl geo (chunk # rest) geo_gdf st =
     (case retry_loop dl chunk geo RETRY_LIMIT st of
        (st1, Some e) \<Rightarrow> (st1, Inl e)
      | (st1, None) \<Rightarrow>
          (case st_chunk_df st1 of
             None \<Rightarrow> (st1, Inl NameError)
           | Some cdf \<Rightarrow>
               (case geo_gdf of
                  None \<Rightarrow> chunk_loop dl geo rest (Some (cdf, True)) st1
                | Some g \<Rightarrow>
                    (case join_left (Num NaN) (fst g) cdf of
                       Inl e \<Rightarrow> (st1, Inl e)
                     | Inr j \<Rightarrow> chunk_loop dl geo rest (Some (j, False)) st1))))"

definition output_file :: "string \<Rightarrow> string \<Rightarrow> string" where
  "output_file table_id geo = ''acs5_2022_'' @ table_id @ ''_'' @ geo @ ''.parquet''"

text \<open>
  The frame a run of the CV loop leaves behind: each pass assigns its column in place,
  and a pass that raises assigns nothing.
\<close>

fun cv_partial :: "cell frame \<Rightarrow> string list \<Rightarrow> cell frame" where
  "cv_partial df [] = df"
| "cv_partial df (est_var # rest) =
     (case cv_step df est_var of Inl e \<Rightarrow> df | Inr d \<Rightarrow> cv_partial d rest)"

text \<open>
  One table and geography: the chunks, the CV columns, then \<^verbatim>\<open>to_parquet\<close>. The CV
  columns are assigned to \<^verbatim>\<open>geo_gdf\<close> in place; when \<^verbatim>\<open>geo_gdf\<close> is the object \<^verbatim>\<open>chunk_df\<close>
  names, \<^verbatim>\<open>chunk_df\<close> has them too.
\<close>

definition extract_unit ::
  "service \<Rightarrow> string \<Rightarrow> string list \<Rightarrow> string list \<Rightarrow> string \<Rightarrow> script_state
     \<Rightarrow> script_state \<times> error option" where
  "extract_unit dl table_id table_vars variables_all geo st =
     (case chunk_loop dl geo (chunk_vars variables_all) None st of
        (st1, Inl e) \<Rightarrow> (st1, Some e)
      | (st1, Inr None) \<Rightarrow> (st1, Some AttributeError)
      | (st1, Inr (Some g)) \<Rightarrow>
          (let geo_gdf = fst g;
               st2 = (if snd g then st1\<lparr>st_chunk_df := Some (cv_partial geo_gdf table_vars)\<rparr>
                      else st1)
           in case cv_loop geo_gdf table_vars of
                Inl e \<Rightarrow> (st2, Some e)
              | Inr out \<Rightarrow>
                  (st2\<lparr>st_files := AList.update (output_file table_id geo) out (st_files st2)\<rparr>,
                   None)))"

fun extract_geos ::
  "service \<Rightarrow> string \<Rightarrow> string list \<Rightarrow> string list \<Rightarrow> string list \<Rightarrow> script_state
     \<Rightarrow> script_state \<times> error option" where
  "extract_geos dl table_id table_vars variables_all [] st = (st, None)"
| "extract_geos dl table_id table_vars variables_all (geo # rest) st =
     (case extract_unit dl table_id table_vars variables_all geo st of
        (st1, Some e) \<Rightarrow> (st1, Some e)
      | (st1, None) \<Rightarrow> extract_geos dl table_id table_vars variables_all rest st1)"

text \<open>
  The loop over the tables, each given with the \<^verbatim>\<open>VARIABLE\<close> entries the variable list
  has for it. \<^verbatim>\<open>table_vars\<close> are those that match \<^verbatim>\<open>acs_pattern\<close>; a table left without
  variables is skipped.
\<close>

fun extract_tables ::
  "service \<Rightarrow> (string \<times> string list) list \<Rightarrow> script_state \<Rightarrow> script_state \<times> error option" where
  "extract_tables dl [] st = (st, None)"
| "extract_tables dl (t # rest) st =
     (let table_vars = filter acs_pattern (snd t);
          variables_all = table_vars @ moe_codes table_vars in
      if variables_all = [] then extract_tables dl rest st
      else (case extract_geos dl (fst t) table_vars variables_all geo_levels st of
              (st1, Some e) \<Rightarrow> (st1, Some e)
            | (st1, None) \<Rightarrow> extract_tables dl rest st1))"

section \<open>The notebook's main loop\<close>

text \<open>
  \<^verbatim>\<open>geo_df.reset_index(inplace=True)\<close>: the index becomes the first column, under its
  name (\<^verbatim>\<open>index\<close>, or \<^verbatim>\<open>level_0\<close>, for a default index); a column of that name already
  there raises \<^verbatim>\<open>ValueError\<close>.
\<close>

fun label_cell :: "label \<Rightarrow> cell" where
  "label_cell (Pos n) = Num (Fin (of_nat n))"
| "label_cell (Key r) = Obj r"

definition reset_index :: "cell frame \<Rightarrow> error + cell frame" where
  "reset_index df =
     (let name = (case iname df of
                    Some n \<Rightarrow> n
                  | None \<Rightarrow> if ''index'' \<in> set (columns df) then ''level_0'' else ''index'')
      in if name \<in> set (columns df) then Inl ValueError
         else Inr (Frame None (map Pos [0 ..< length (index df)])
                     ((name, map label_cell (index df)) # cols df)))"

text \<open>
  \<^verbatim>\<open>if "geometry" in geo_df.columns:
    geo_df["geometry_wkt"] = geo_df["geometry"].apply(
        lambda geom: geom.wkt if geom is not None else None)
    geo_df.drop(columns=["geometry"], inplace=True)\<close>
\<close>

fun wkt_of :: "cell \<Rightarrow> error + cell" where
  "wkt_of (Obj (Geometry g)) = Inr (Obj (Text g))"
| "wkt_of (Obj PyNone) = Inr (Obj PyNone)"
| "wkt_of c = Inl AttributeError"

definition geometry_wkt :: "cell frame \<Rightarrow> error + cell frame" where
  "geometry_wkt df =
     (if ''geometry'' \<in> set (columns df)
      then thn (get_col df ''geometry'') (\<lambda>gs.
           thn (collect (map wkt_of gs)) (\<lambda>ws.
           let d = set_col df ''geometry_wkt'' ws in
           Inr (Frame (iname d) (index d) (filter (\<lambda>p. fst p \<noteq> ''geometry'') (cols d)))))
      else Inr df)"

text \<open>
  The state of the notebook: the requests issued and the tables saved in the lakehouse,
  each with its partition column. The sink (\<^verbatim>\<open>spark.createDataFrame\<close> and
  \<^verbatim>\<open>saveAsTable\<close>) is external: \<open>sink_ok\<close> tells for a table name whether the write
  succeeds; a write that fails raises and leaves the lakehouse as it was.
\<close>

record etl_state =
  etl_requests :: "request list"
  etl_saved :: "(string \<times> string option \<times> cell frame) list"

definition target_table_name :: "string \<Rightarrow> string \<Rightarrow> string" where
  "target_table_name table_id geo = ''Bronze.census_acs2022_'' @ table_id @ ''_'' @ geo"

text \<open>
  The body of \<^verbatim>\<open>for geo in geographies\<close>. No statement of it is inside a \<^verbatim>\<open>try\<close>: an
  exception of the fetch, of the annotation or of the sink leaves the loop.
\<close>

definition etl_unit ::
  "service \<Rightarrow> (string \<Rightarrow> bool) \<Rightarrow> string \<Rightarrow> string list \<Rightarrow> string list \<Rightarrow> string \<Rightarrow> etl_state
     \<Rightarrow> etl_state \<times> error option" where
  "etl_unit dl sink_ok table_id var_codes all_vars geo st =
     (case fetch_geo_data dl all_vars geo (etl_requests st) of
        (reqs, Inl e) \<Rightarrow> (st\<lparr>etl_requests := reqs\<rparr>, Some e)
      | (reqs, Inr geo_df) \<Rightarrow>
          (case thn (cv_loop geo_df var_codes) (\<lambda>d. thn (reset_index d) geometry_wkt) of
             Inl e \<Rightarrow> (st\<lparr>etl_requests := reqs\<rparr>, Some e)
           | Inr out \<Rightarrow>
               if sink_ok (target_table_name table_id geo)
               then (st\<lparr>etl_requests := reqs,
                        etl_saved := AList.update (target_table_name table_id geo)
                          (if geo = ''tract'' \<or> geo = ''county'' then Some ''state'' else None, out)
                          (etl_saved st)\<rparr>, None)
               else (st\<lparr>etl_requests := reqs\<rparr>, Some SinkError)))"

fun etl_geos ::
  "service \<Rightarrow> (string \<Rightarrow> bool) \<Rightarrow> string \<Rightarrow> string list \<Rightarrow> string list \<Rightarrow> string list
     \<Rightarrow> etl_state \<Rightarrow> etl_state \<times> error option" where
  "etl_geos dl sink_ok table_id var_codes all_vars [] st = (st, None)"
| "etl_geos dl sink_ok table_id var_codes all_vars (geo # rest) st =
     (case etl_unit dl sink_ok table_id var_codes all_vars geo st of
        (st1, Some e) \<Rightarrow> (st1, Some e)
      | (st1, None) \<Rightarrow> etl_geos dl sink_ok table_id var_codes all_vars rest st1)"

text \<open>
  \<^verbatim>\<open>for table_id, vars_subset in table_groups\<close>: the groups are given as pairs of a table
  id and its variable codes.
\<close>

fun etl_tables ::
  "service \<Rightarrow> (string \<Rightarrow> bool) \<Rightarrow> (string \<times> string list) list \<Rightarrow> etl_state
     \<Rightarrow> etl_state \<times> error option" where
  "etl_tables dl sink_ok [] st = (st, None)"
| "etl_tables dl sink_ok (t # rest) st =
     (let var_codes = snd t; all_vars = var_codes @ moe_codes var_codes in
      if all_vars = [] then etl_tables dl sink_ok rest st
      else (case etl_geos dl sink_ok (fst t) var_codes all_vars geo_levels st of
              (st1, Some e) \<Rightarrow> (st1, Some e)
            | (st1, None) \<Rightarrow> etl_tables dl sink_ok rest st1))"

section \<open>The documented key rule\<close>

text \<open>
  The keys the documentation describes, written out for comparison with what the
  standardising blocks compute: zero-padded segments in fixed order, state (2), county
  (3), tract (6); ZCTA (5).
\<close>

definition tract_key :: "raw \<Rightarrow> raw \<Rightarrow> raw \<Rightarrow> string" where
  "tract_key s c t = zfill 2 (py_str s) @ zfill 3 (py_str c) @ zfill 6 (py_str t)"

definition county_key :: "raw \<Rightarrow> raw \<Rightarrow> string" where
  "county_key s c = zfill 2 (py_str s) @ zfill 3 (py_str c)"

definition state_key :: "raw \<Rightarrow> string" where
  "state_key s = zfill 2 (py_str s)"

definition zcta_key :: "raw \<Rightarrow> string" where
  "zcta_key z = zfill 5 (py_str z)"

section \<open>Numeric columns\<close>

fun is_num :: "cell \<Rightarrow> bool" where
  "is_num (Num v) = True"
| "is_num (Obj x) = False"


section \<open>Concrete inputs\<close>

text \<open>
  A service for the state level that answers every request with one row (state 6) and
  one value column named after the first requested variable, without a geometry.
\<close>

definition one_state_service :: service where
  "one_state_service n vs geo_level =
     Inr (Frame None [Pos 0] [(''state'', [Text ''6'']), (hd vs, [Text ''1''])])"

text \<open>Fifty-one variables: fifty times \<open>A\<close>, then \<open>B\<close>.\<close>

definition fifty_one_vars :: "string list" where
  "fifty_one_vars = replicate 50 ''A'' @ [''B'']"

text \<open>
  One record after the fetch: the estimate \<open>X_001E\<close> is 0, its margin of error
  \<open>X_001M\<close> is 1645.
\<close>

definition zero_estimate_frame :: "cell frame" where
  "zero_estimate_frame =
     Frame (Some ''state'') [Key (Text ''06'')]
       [(''X_001E'', [Num (Fin 0)]), (''X_001M'', [Num (Fin 1645)])]"

text \<open>A state-level answer whose state field is three characters long.\<close>

definition long_state_frame :: "raw frame" where
  "long_state_frame = Frame None [Pos 0] [(''state'', [Text ''123'']), (''X_001E'', [Text ''7''])]"

text \<open>One tract of Los Angeles County as the service delivers it, without a geometry.\<close>

definition one_tract_frame :: "raw frame" where
  "one_tract_frame =
     Frame None [Pos 0]
       [(''state'', [Text ''6'']), (''county'', [Text ''37'']), (''tract'', [Text ''101110'']),
        (''X_001E'', [Text ''4219''])]"

text \<open>One ZIP code tabulation area as the service delivers it.\<close>

definition one_zcta_frame :: "raw frame" where
  "one_zcta_frame =
     Frame None [Pos 0] [(''zip code tabulation area'', [Text ''601'']), (''X_001E'', [Text ''17'']) ]"

text \<open>
  A state-level service whose first answer has the single row of state 6 and whose later
  answers have two rows, states 6 and 36.
\<close>

definition growing_service :: service where
  "growing_service n vs geo_level =
     (if n = 0 then Inr (Frame None [Pos 0] [(''state'', [Text ''6'']), (hd vs, [Text ''1''])])
      else Inr (Frame None [Pos 0, Pos 1]
                  [(''state'', [Text ''6'', Text ''36'']), (hd vs, [Text ''2'', Text ''3''])]))"

text \<open>
  Two records after the fetch of table \<open>B01003\<close> at state level: estimate 1000000 with
  margin of error 1645. The frame also has the estimate \<open>X_002E\<close>, whose margin of error
  is absent.
\<close>

definition population_frame :: "cell frame" where
  "population_frame =
     Frame (Some ''state'') [Key (Text ''06''), Key (Text ''36'')]
       [(''NAME'', [Obj (Text ''California''), Obj (Text ''New York'')]),
        (''B01003_001E'', [Num (Fin 1000000), Num (Fin 1000000)]),
        (''B01003_001M'', [Num (Fin 1645), Num (Fin 1645)]),
        (''X_002E'', [Num (Fin 5), Num NaN])]"

text \<open>
  One tract as the service delivers it for table \<open>B01003\<close>: estimate 4000, margin of
  error 329.
\<close>

definition population_tract_frame :: "raw frame" where
  "population_tract_frame =
     Frame None [Pos 0]
       [(''state'', [Text ''6'']), (''county'', [Text ''37'']), (''tract'', [Text ''101110'']),
        (''B01003_001E'', [Text ''4000'']), (''B01003_001M'', [Text ''329''])]"

text \<open>
  A service that times out on every ZCTA request and answers every other request with
  that tract.
\<close>

definition timeout_on_zcta :: service where
  "timeout_on_zcta n vs geo_level =
     (if geo_level = ''zcta'' then Inl ReadTimeout else Inr population_tract_frame)"

text \<open>
  What the extraction script writes for the tract level of that answer: the coerced
  columns and the coefficient of variation, (329 / 1.645) / 4000 * 100 = 5.
\<close>

definition tract_result :: "cell frame" where
  "tract_result =
     Frame (Some ''GEOID'') [Key (Text ''06037101110'')]
       [(''state'', [Num (Fin 6)]), (''county'', [Num (Fin 37)]), (''tract'', [Num (Fin 101110)]),
        (''B01003_001E'', [Num (Fin 4000)]), (''B01003_001M'', [Num (Fin 329)]),
        (''B01003_001E_CV'', [Num (Fin 5)])]"

text \<open>A service that answers every request with the one tract above.\<close>

definition one_tract_service :: service where
  "one_tract_service n vs geo_level = Inr one_tract_frame"

text \<open>A service that fails on tract requests and answers the others with that tract.\<close>

definition failing_tract_service :: service where
  "failing_tract_service n vs geo_level =
     (if geo_level = ''tract'' then Inl ServiceError else Inr one_tract_frame)"

definition empty_lakehouse :: etl_state where
  "empty_lakehouse = \<lparr>etl_requests = [], etl_saved = []\<rparr>"

text \<open>
  Estimate codes \<open><table>_001E\<close>, \<open><table>_002E\<close>, ... of a table, and the variable
  list the scripts request for them: the estimate codes followed by the derived
  margin-of-error codes.
\<close>

definition two_digits :: "string list" where
  "two_digits = concat (map (\<lambda>a. map (\<lambda>b. [a, b]) ''0123456789'') ''012345'')"

definition estimate_codes :: "string \<Rightarrow> nat \<Rightarrow> string list" where
  "estimate_codes table n = map (\<lambda>d. table @ ''_0'' @ d @ ''E'') (take n (drop 1 two_digits))"

definition requested_vars :: "string \<Rightarrow> nat \<Rightarrow> string list" where
  "requested_vars table n = estimate_codes table n @ moe_codes (estimate_codes table n)"

text \<open>
  A service that answers every request with one tract: the three dimension fields, one
  value for each requested variable, and the geometry.
\<close>

definition echo_service :: service where
  "echo_service n vs geo_level =
     Inr (Frame None [Pos 0]
            ([(''state'', [Text ''6'']), (''county'', [Text ''37'']), (''tract'', [Text ''101110''])]
             @ map (\<lambda>v. (v, [Text ''1''])) vs
             @ [(''geometry'', [Geometry ''POLYGON EMPTY''])]))"

section \<open>Properties of the chunking\<close>

declare chunks_from.simps [simp del]

lemma concat_chunks_from: "concat (chunks_from i xs) = drop i xs"
proof (induction i xs rule: chunks_from.induct)
  case (1 i xs)
  show ?case
  proof (cases "i < length xs")
    case True
    have "concat (chunks_from i xs) =
        take MAX_VARS_PER_CALL (drop i xs) @ drop (i + MAX_VARS_PER_CALL) xs"
      using True "1" by (subst chunks_from.simps) simp
    also have "\<dots> = drop i xs"
    proof -
      have "drop (i + MAX_VARS_PER_CALL) xs = drop MAX_VARS_PER_CALL (drop i xs)"
        by (simp add: add.commute)
      then show ?thesis by (simp only: append_take_drop_id)
    qed
    finally show ?thesis .
  next
    case False
    then show ?thesis by (subst chunks_from.simps) simp
  qed
qed

lemma chunks_from_sizes:
  "c \<in> set (chunks_from i xs) \<Longrightarrow> 0 < length c \<and> length c \<le> MAX_VARS_PER_CALL"
proof (induction i xs rule: chunks_from.induct)
  case (1 i xs)
  show ?case
  proof (cases "i < length xs")
    case True
    from "1.prems" True
    have "c = take MAX_VARS_PER_CALL (drop i xs) \<or> c \<in> set (chunks_from (i + MAX_VARS_PER_CALL) xs)"
      by (subst (asm) chunks_from.simps) simp
    then show ?thesis
    proof
      assume "c = take MAX_VARS_PER_CALL (drop i xs)"
      with True show ?thesis by (simp add: MAX_VARS_PER_CALL_def)
    next
      assume "c \<in> set (chunks_from (i + MAX_VARS_PER_CALL) xs)"
      with "1.IH" True show ?thesis by simp
    qed
  next
    case False
    with "1.prems" show ?thesis by (subst (asm) chunks_from.simps) simp
  qed
qed

lemma chunk_count_step:
  "i < n \<Longrightarrow> Suc ((n - (i + 50) + 49) div 50) = (n - i + 49) div (50::nat)"
proof (cases "i + 50 \<le> n")
  case True
  then have "n - i + 49 = (n - (i + 50) + 49) + 50" by simp
  then show ?thesis by (simp only: div_add_self2)
next
  case False
  assume "i < n"
  with False have "50 * 1 \<le> n - i + 49" "n - i + 49 < 50 * Suc 1" "n - (i + 50) = 0"
    by simp_all
  then have "(n - i + 49) div 50 = 1" by (intro div_nat_eqI) simp_all
  with \<open>n - (i + 50) = 0\<close> show ?thesis by simp
qed

lemma length_chunks_from:
  "length (chunks_from i xs) = (length xs - i + (MAX_VARS_PER_CALL - 1)) div MAX_VARS_PER_CALL"
proof (induction i xs rule: chunks_from.induct)
  case (1 i xs)
  show ?case
  proof (cases "i < length xs")
    case True
    have "length (chunks_from i xs) = Suc (length (chunks_from (i + MAX_VARS_PER_CALL) xs))"
      using True by (subst chunks_from.simps) simp
    also have "\<dots> = Suc ((length xs - (i + MAX_VARS_PER_CALL) + (MAX_VARS_PER_CALL - 1))
        div MAX_VARS_PER_CALL)"
      using "1" True by simp
    also have "\<dots> = (length xs - i + (MAX_VARS_PER_CALL - 1)) div MAX_VARS_PER_CALL"
      using chunk_count_step [OF True] by (simp add: MAX_VARS_PER_CALL_def)
    finally show ?thesis .
  next
    case False
    then show ?thesis by (subst chunks_from.simps) (simp add: MAX_VARS_PER_CALL_def)
  qed
qed

section \<open>Basic facts about frames\<close>

lemma thn_Inr [simp]: "thn (Inr x) f = f x"
  by (simp add: thn_def)

lemma thn_Inl [simp]: "thn (Inl e) f = Inl e"
  by (simp add: thn_def)

lemma thn_eq_Inr: "thn r f = Inr y \<longleftrightarrow> (\<exists>x. r = Inr x \<and> f x = Inr y)"
  by (cases r) simp_all


lemma get_col_set_col_same [simp]: "get_col (set_col df c vs) c = Inr vs"
  by (simp add: get_col_def set_col_def update_conv')

lemma get_col_set_col_other [simp]:
  "c' \<noteq> c \<Longrightarrow> get_col (set_col df c vs) c' = get_col df c'"
  by (simp add: get_col_def set_col_def update_conv')

lemma columns_set_col:
  "columns (set_col df c vs) = (if c \<in> set (columns df) then columns df else columns df @ [c])"
  by (simp add: columns_def set_col_def update_keys)

lemma index_set_col [simp]: "index (set_col df c vs) = index df"
  by (simp add: set_col_def)

lemma iname_set_col [simp]: "iname (set_col df c vs) = iname df"
  by (simp add: set_col_def)

lemma get_col_Inr_iff: "get_col df c = Inr vs \<longleftrightarrow> map_of (cols df) c = Some vs"
  by (simp add: get_col_def split: option.splits)

lemma get_col_in_columns: "get_col df c = Inr vs \<Longrightarrow> c \<in> set (columns df)"
  by (auto simp: get_col_Inr_iff columns_def dest: map_of_SomeD intro: rev_image_eqI)

lemma in_columns_get_col: "c \<in> set (columns df) \<Longrightarrow> \<exists>vs. get_col df c = Inr vs"
  by (cases "map_of (cols df) c") (auto simp: get_col_def columns_def map_of_eq_None_iff)

lemma zfill_col_Inr:
  "get_col df c = Inr vs
   \<Longrightarrow> zfill_col df c w = Inr (set_col df c (map (\<lambda>v. Text (zfill w (py_str v))) vs))"
  by (simp add: zfill_col_def)

lemma add_cols_Text:
  "add_cols (map Text xs) (map Text ys) = Inr (map (\<lambda>p. Text (fst p @ snd p)) (zip xs ys))"
proof (induction xs arbitrary: ys)
  case Nil
  then show ?case by simp
next
  case (Cons x xs)
  then show ?case by (cases ys) simp_all
qed

lemma set_index_Inr:
  "get_col df c = Inr vs
   \<Longrightarrow> set_index df c = Inr (Frame (Some c) (map Key vs) (filter (\<lambda>p. fst p \<noteq> c) (cols df)))"
  by (simp add: set_index_def)

lemma length_zfill: "length (zfill w s) = max w (length s)"
  by (cases s) (auto simp: zfill_def)

section \<open>Margin-of-error codes\<close>

text \<open>
  C1. The margin-of-error code of an estimate code should differ from it in the trailing
  field-type character only. The notebook and the extraction script derive it with
  \<^verbatim>\<open>replace("E", "M")\<close>, which also rewrites an \<open>E\<close> in the table prefix: the estimate
  \<open>B01001E_001E\<close> is paired with \<open>B01001M_001M\<close>, while replacing the trailing
  character alone (as the extraction script's \<^verbatim>\<open>MOE_VAR\<close> column does) gives
  \<open>B01001E_001M\<close>.
\<close>

theorem moe_codes_rewrites_table_prefix:
  "moe_codes [''B01001E_001E''] = [''B01001M_001M'']
   \<and> moe_var_regex ''B01001E_001E'' = ''B01001E_001M''
   \<and> moe_codes [''B01001E_001E''] \<noteq> map moe_var_regex [''B01001E_001E'']"
  by (simp add: moe_codes_def str_replace_def moe_var_regex_def)

section \<open>Requests issued by the notebook's fetcher\<close>

lemma fetch_loop_requests:
  "fetch_loop dl geo_level chs full reqs = (reqs', Inr r)
   \<Longrightarrow> reqs' = reqs @ map (\<lambda>c. (c, geo_level)) chs"
proof (induction chs arbitrary: full reqs)
  case Nil
  then show ?case by simp
next
  case (Cons ch chs)
  from Cons.prems obtain d where
    "fetch_loop dl geo_level chs (Some d) (reqs @ [(ch, geo_level)]) = (reqs', Inr r)"
    by (auto split: sum.splits)
  from Cons.IH [OF this] show ?case by simp
qed

lemma fetch_geo_data_requests:
  assumes "fetch_geo_data dl vs geo_level reqs = (reqs', Inr df)"
  shows "reqs' = reqs @ map (\<lambda>c. (c, geo_level)) (chunk_vars vs)"
proof -
  from assms obtain d where
    "fetch_loop dl geo_level (chunk_vars vs) None reqs = (reqs', Inr (Some d))"
    by (auto simp: fetch_geo_data_def split: if_splits prod.splits sum.splits option.splits)
  then show ?thesis by (rule fetch_loop_requests)
qed

lemma fetch_loop_requests_prefix:
  "fetch_loop dl geo_level chs full reqs = (reqs', r)
   \<Longrightarrow> \<exists>k \<le> length chs. reqs' = reqs @ map (\<lambda>c. (c, geo_level)) (take k chs)"
proof (induction chs arbitrary: full reqs)
  case Nil
  then show ?case by simp
next
  case (Cons ch chs)
  have one: "\<exists>k \<le> length (ch # chs).
      reqs @ [(ch, geo_level)] = reqs @ map (\<lambda>c. (c, geo_level)) (take k (ch # chs))"
    by (rule exI [of _ 1]) simp
  show ?case
  proof (cases "\<exists>d. fetch_loop dl geo_level chs (Some d) (reqs @ [(ch, geo_level)]) = (reqs', r)")
    case True
    then obtain d k where "k \<le> length chs"
      "reqs' = (reqs @ [(ch, geo_level)]) @ map (\<lambda>c. (c, geo_level)) (take k chs)"
      using Cons.IH by blast
    then have "Suc k \<le> length (ch # chs)
        \<and> reqs' = reqs @ map (\<lambda>c. (c, geo_level)) (take (Suc k) (ch # chs))"
      by simp
    then show ?thesis by blast
  next
    case False
    with Cons.prems have "reqs' = reqs @ [(ch, geo_level)]"
      by (auto split: sum.splits)
    with one show ?thesis by simp
  qed
qed

lemma fetch_geo_data_requests_prefix:
  "\<exists>k \<le> length (chunk_vars vs).
     fst (fetch_geo_data dl vs geo_level reqs)
       = reqs @ map (\<lambda>c. (c, geo_level)) (take k (chunk_vars vs))"
proof (cases "geo_level \<in> set geo_levels")
  case False
  then have "fst (fetch_geo_data dl vs geo_level reqs)
      = reqs @ map (\<lambda>c. (c, geo_level)) (take 0 (chunk_vars vs))"
    by (simp add: fetch_geo_data_def)
  then show ?thesis by blast
next
  case True
  obtain reqs' r where l: "fetch_loop dl geo_level (chunk_vars vs) None reqs = (reqs', r)"
    by (cases "fetch_loop dl geo_level (chunk_vars vs) None reqs")
  from True l have "fst (fetch_geo_data dl vs geo_level reqs) = reqs'"
    by (auto simp: fetch_geo_data_def split: sum.splits option.splits)
  with fetch_loop_requests_prefix [OF l] show ?thesis by simp
qed

text \<open>
  The slices of \<open>range(0, len, 50)\<close>: in order they make up the list again, none is
  empty or longer than 50, and there are \<open>ceil(N/50)\<close> of them.
\<close>

lemma chunk_vars_partition:
  "concat (chunk_vars vs) = vs
   \<and> (\<forall>c \<in> set (chunk_vars vs). 0 < length c \<and> length c \<le> 50)
   \<and> length (chunk_vars vs) = (length vs + 49) div 50"
proof (intro conjI ballI)
  show "concat (chunk_vars vs) = vs"
    by (simp add: chunk_vars_def concat_chunks_from)
  show "length (chunk_vars vs) = (length vs + 49) div 50"
    by (simp add: chunk_vars_def length_chunks_from MAX_VARS_PER_CALL_def)
next
  fix c assume "c \<in> set (chunk_vars vs)"
  then show "0 < length c"  "length c \<le> 50"
    using chunks_from_sizes [of c 0 vs] by (simp_all add: chunk_vars_def MAX_VARS_PER_CALL_def)
qed

text \<open>
  At state level the standardised chunks of a service that sends no geometry share no
  column, and a fetch of two chunks completes with one request for each group.
\<close>

lemma chunk_vars_fifty_one:
  "chunk_vars fifty_one_vars = [replicate 50 ''A'', [''B'']]"
  by (simp add: chunk_vars_def fifty_one_vars_def chunks_from.simps MAX_VARS_PER_CALL_def)

lemma fetch_fifty_one:
  "fetch_geo_data one_state_service fifty_one_vars ''state'' [] =
     ([(replicate 50 ''A'', ''state''), ([''B''], ''state'')],
      Inr (Frame (Some ''state'') [Key (Text ''06'')]
             [(''A'', [Num (Fin 1)]), (''B'', [Num (Fin 1)])]))"
  by code_simp

section \<open>The coefficient of variation of one record\<close>

lemma fdiv_NaN_right [simp]: "fdiv x NaN = NaN"
  by (cases x) simp_all

lemma fmul_NaN_right [simp]: "fmul x NaN = NaN"
  by (cases x) simp_all

lemma cv_value_missing_estimate: "cv_value m NaN = NaN"
  by (simp add: cv_value_def)

lemma cv_value_missing_moe: "cv_value NaN e = NaN"
  by (simp add: cv_value_def)

lemma cv_value_zero_estimate:
  "cv_value (Fin a) (Fin 0) = (if a = 0 then NaN else if 0 < a then PInf else NInf)"
  by (simp add: cv_value_def)

lemma cv_value_infinite_moe_zero_estimate:
  "cv_value PInf (Fin 0) = PInf"  "cv_value NInf (Fin 0) = NInf"
  by (simp_all add: cv_value_def)

lemma collect_map_Inr: "collect (map (\<lambda>x. Inr (f x)) xs) = Inr (map f xs)"
  by (induction xs) (simp_all add: thn_def)

lemma cv_column_numeric:
  "cv_column (map Num ms) (map Num es) =
     Inr (map (\<lambda>p. Num (cv_value (fst p) (snd p))) (zip ms es))"
proof -
  have "zip (map Num ms) (map Num es) = map (\<lambda>p. (Num (fst p), Num (snd p))) (zip ms es)"
    by (simp add: zip_map_map case_prod_unfold)
  then show ?thesis
    by (simp add: cv_column_def thn_def o_def collect_map_Inr)
qed

text \<open>
  C2, as the code has it. A missing estimate gives a missing coefficient of variation.
  An estimate of exactly zero is divided by like any other: the result is missing only
  when the margin of error is zero or missing, and is infinite otherwise. On numeric
  columns the computation never raises.
\<close>

theorem cv_of_missing_or_zero_estimate:
  "is_missing (cv_value m NaN)
   \<and> cv_value (Fin a) (Fin 0) = (if a = 0 then NaN else if 0 < a then PInf else NInf)
   \<and> cv_value NaN (Fin 0) = NaN \<and> cv_value PInf (Fin 0) = PInf \<and> cv_value NInf (Fin 0) = NInf
   \<and> cv_column (map Num ms) (map Num es) =
        Inr (map (\<lambda>p. Num (cv_value (fst p) (snd p))) (zip ms es))"
  by (simp add: is_missing_def cv_value_missing_estimate cv_value_zero_estimate
      cv_value_missing_moe cv_value_infinite_moe_zero_estimate cv_column_numeric)

text \<open>
  The claim fails for an estimate of zero with a margin of error of 1645: the notebook's
  loop body records infinity, which is not the missing value.
\<close>

theorem cv_of_zero_estimate_is_infinite:
  "cv_step zero_estimate_frame ''X_001E'' =
     Inr (Frame (Some ''state'') [Key (Text ''06'')]
            [(''X_001E'', [Num (Fin 0)]), (''X_001M'', [Num (Fin 1645)]),
             (''X_001E_CV'', [Num PInf])])
   \<and> \<not> is_missing PInf"
  by (simp add: zero_estimate_frame_def cv_step_def str_replace_def columns_def get_col_def
      set_col_def cv_column_def thn_def cv_value_def is_missing_def)

section \<open>Geography keys\<close>

lemma add_cols_Text_map:
  "add_cols (map (\<lambda>v. Text (f v)) xs) (map (\<lambda>v. Text (g v)) ys) =
     Inr (map (\<lambda>p. Text (f (fst p) @ g (snd p))) (zip xs ys))"
proof (induction xs arbitrary: ys)
  case Nil
  then show ?case by simp
next
  case (Cons x xs)
  then show ?case by (cases ys) simp_all
qed

lemma geoid_tract_Inr:
  assumes "get_col df ''state'' = Inr ss" "get_col df ''county'' = Inr cs"
    "get_col df ''tract'' = Inr ts"
  shows "\<exists>d. geoid_tract df = Inr d \<and> index d = index df
     \<and> get_col d ''GEOID'' =
         Inr (map (\<lambda>p. Text (tract_key (fst (fst p)) (snd (fst p)) (snd p))) (zip (zip ss cs) ts))"
proof -
  let ?d1 = "set_col df ''state'' (map (\<lambda>v. Text (zfill 2 (py_str v))) ss)"
  let ?d2 = "set_col ?d1 ''county'' (map (\<lambda>v. Text (zfill 3 (py_str v))) cs)"
  let ?d3 = "set_col ?d2 ''tract'' (map (\<lambda>v. Text (zfill 6 (py_str v))) ts)"
  have z1: "zfill_col df ''state'' 2 = Inr ?d1"
    using assms(1) by (rule zfill_col_Inr)
  have z2: "zfill_col ?d1 ''county'' 3 = Inr ?d2"
    using assms(2) by (intro zfill_col_Inr) simp
  have z3: "zfill_col ?d2 ''tract'' 6 = Inr ?d3"
    using assms(3) by (intro zfill_col_Inr) simp
  have a1: "add_cols (map (\<lambda>v. Text (zfill 2 (py_str v))) ss) (map (\<lambda>v. Text (zfill 3 (py_str v))) cs)
      = Inr (map (\<lambda>p. Text (county_key (fst p) (snd p))) (zip ss cs))"
    by (simp add: add_cols_Text_map county_key_def)
  have a2: "add_cols (map (\<lambda>p. Text (county_key (fst p) (snd p))) (zip ss cs))
        (map (\<lambda>v. Text (zfill 6 (py_str v))) ts)
      = Inr (map (\<lambda>p. Text (tract_key (fst (fst p)) (snd (fst p)) (snd p))) (zip (zip ss cs) ts))"
    by (simp add: add_cols_Text_map county_key_def tract_key_def)
  show ?thesis
    unfolding geoid_tract_def by (simp add: z1 z2 z3 a1 a2)
qed

lemma fips_county_Inr:
  assumes "get_col df ''state'' = Inr ss" "get_col df ''county'' = Inr cs"
  shows "\<exists>d. fips_county df = Inr d \<and> index d = index df
     \<and> get_col d ''FIPS'' = Inr (map (\<lambda>p. Text (county_key (fst p) (snd p))) (zip ss cs))"
proof -
  let ?d1 = "set_col df ''state'' (map (\<lambda>v. Text (zfill 2 (py_str v))) ss)"
  let ?d2 = "set_col ?d1 ''county'' (map (\<lambda>v. Text (zfill 3 (py_str v))) cs)"
  have z1: "zfill_col df ''state'' 2 = Inr ?d1"
    using assms(1) by (rule zfill_col_Inr)
  have z2: "zfill_col ?d1 ''county'' 3 = Inr ?d2"
    using assms(2) by (intro zfill_col_Inr) simp
  have a1: "add_cols (map (\<lambda>v. Text (zfill 2 (py_str v))) ss) (map (\<lambda>v. Text (zfill 3 (py_str v))) cs)
      = Inr (map (\<lambda>p. Text (county_key (fst p) (snd p))) (zip ss cs))"
    by (simp add: add_cols_Text_map county_key_def)
  show ?thesis
    unfolding fips_county_def by (simp add: z1 z2 a1)
qed

lemma index_set_index:
  "get_col d c = Inr vs \<Longrightarrow> \<exists>d'. set_index d c = Inr d' \<and> index d' = map Key vs \<and> iname d' = Some c"
  by (simp add: set_index_Inr)

lemma standardize_tract:
  assumes "get_col df ''state'' = Inr ss" "get_col df ''county'' = Inr cs"
    "get_col df ''tract'' = Inr ts"
  shows "\<exists>d. standardize is_zip ''tract'' df = Inr d
     \<and> index d = map (\<lambda>p. Key (Text (tract_key (fst (fst p)) (snd (fst p)) (snd p))))
                   (zip (zip ss cs) ts)"
proof -
  from geoid_tract_Inr [OF assms] obtain d where
    d: "geoid_tract df = Inr d"
      "get_col d ''GEOID'' =
         Inr (map (\<lambda>p. Text (tract_key (fst (fst p)) (snd (fst p)) (snd p))) (zip (zip ss cs) ts))"
    by blast
  from index_set_index [OF d(2)] d(1) show ?thesis
    by (auto simp: standardize_def o_def)
qed

lemma standardize_county:
  assumes "get_col df ''state'' = Inr ss" "get_col df ''county'' = Inr cs"
  shows "\<exists>d. standardize is_zip ''county'' df = Inr d
     \<and> index d = map (\<lambda>p. Key (Text (county_key (fst p) (snd p)))) (zip ss cs)"
proof -
  from fips_county_Inr [OF assms] obtain d where
    d: "fips_county df = Inr d"
      "get_col d ''FIPS'' = Inr (map (\<lambda>p. Text (county_key (fst p) (snd p))) (zip ss cs))"
    by blast
  from index_set_index [OF d(2)] d(1) show ?thesis
    by (auto simp: standardize_def o_def)
qed

lemma standardize_state:
  assumes "get_col df ''state'' = Inr ss"
  shows "\<exists>d. standardize is_zip ''state'' df = Inr d
     \<and> index d = map (\<lambda>s. Key (Text (state_key s))) ss"
  using assms by (simp add: standardize_def zfill_col_Inr set_index_Inr state_key_def o_def)

lemma map_of_renamed_first:
  assumes "P new" "filter P (map fst ps) = g # rest"
  shows "map_of (map (\<lambda>p. (if fst p = g then new else fst p, snd p)) ps) new = map_of ps g"
  using assms(2)
proof (induction ps arbitrary: rest)
  case Nil
  then show ?case by simp
next
  case (Cons p ps)
  have "g \<in> set (filter P (map fst (p # ps)))"
    by (simp only: Cons.prems list.set_intros)
  then have Pg: "P g" by (simp only: set_filter mem_Collect_eq)
  show ?case
  proof (cases "P (fst p)")
    case True
    with Cons.prems have "fst p = g" by simp
    then show ?thesis by (cases p) simp
  next
    case False
    with Pg assms(1) have ne: "fst p \<noteq> g" "fst p \<noteq> new" by auto
    from False Cons.prems have "filter P (map fst ps) = g # rest" by simp
    from Cons.IH [OF this] ne show ?thesis by (cases p) simp
  qed
qed

lemma upper_ZCTA: "upper ''ZCTA'' = ''ZCTA''"
  by (simp add: upper_def lower_letters_def upper_letters_def)

lemma get_col_renamed_zcta:
  assumes "filter (\<lambda>c. is_zip (lower c) \<or> upper c = ''ZCTA'') (columns df) = g # rest"
  shows "get_col (rename_col df g ''ZCTA'') ''ZCTA'' = get_col df g"
proof -
  have "map_of (map (\<lambda>p. (if fst p = g then ''ZCTA'' else fst p, snd p)) (cols df)) ''ZCTA''
      = map_of (cols df) g"
    using assms unfolding columns_def
    by (intro map_of_renamed_first [where P = "\<lambda>c. is_zip (lower c) \<or> upper c = ''ZCTA''"])
      (simp_all add: upper_ZCTA)
  then show ?thesis by (simp add: get_col_def rename_col_def)
qed

lemma renamed_count:
  "length (filter (\<lambda>c. c = new) (map (\<lambda>c. if c = g then new else c) cs))
     = length (filter (\<lambda>c. c = g \<or> c = new) cs)"
  by (induction cs) auto

lemma columns_rename_col:
  "columns (rename_col df g new) = map (\<lambda>c. if c = g then new else c) (columns df)"
  by (simp add: columns_def rename_col_def o_def)

lemma standardize_zcta:
  assumes "filter (\<lambda>c. is_zip (lower c) \<or> upper c = ''ZCTA'') (columns df) = g # rest"
    and "filter (\<lambda>c. c = g \<or> c = ''ZCTA'') (columns df) = [g]"
    and "get_col df g = Inr zs"
  shows "\<exists>d. standardize is_zip ''zcta'' df = Inr d
     \<and> index d = map (\<lambda>z. Key (Text (zcta_key z))) zs"
proof -
  have "get_col (rename_col df g ''ZCTA'') ''ZCTA'' = Inr zs"
    using get_col_renamed_zcta [OF assms(1)] assms(3) by simp
  moreover have "length (filter (\<lambda>c. c = ''ZCTA'') (columns (rename_col df g ''ZCTA''))) = 1"
    by (simp only: columns_rename_col renamed_count assms(2)) simp
  ultimately show ?thesis
    using assms(1)
    by (simp add: standardize_def zcta_block_def zfill_col_Inr set_index_Inr zcta_key_def o_def
        Let_def)
qed

lemma standardize_first_tract:
  assumes "get_col df ''state'' = Inr ss" "get_col df ''county'' = Inr cs"
    "get_col df ''tract'' = Inr ts"
  shows "\<exists>d. standardize_first ''tract'' df = Inr d
     \<and> get_col d ''GEOID'' =
         Inr (map (\<lambda>p. Text (tract_key (fst (fst p)) (snd (fst p)) (snd p))) (zip (zip ss cs) ts))"
  using geoid_tract_Inr [OF assms] by (auto simp: standardize_first_def)

lemma standardize_first_other:
  "geo_level \<noteq> ''tract''
   \<Longrightarrow> standardize_first geo_level df = standardize (\<lambda>c. startswith c ''zip'') geo_level df"
  by (simp add: standardize_first_def)

lemma key_widths:
  "length (tract_key s c t) =
     max 2 (length (py_str s)) + max 3 (length (py_str c)) + max 6 (length (py_str t))"
  "length (county_key s c) = max 2 (length (py_str s)) + max 3 (length (py_str c))"
  "length (state_key s) = max 2 (length (py_str s))"
  "length (zcta_key z) = max 5 (length (py_str z))"
  by (simp_all add: tract_key_def county_key_def state_key_def zcta_key_def length_zfill)

text \<open>
  C6, as the code has it. When the dimension columns are present (for the ZCTA level:
  when exactly one column is the zip column or is named \<open>ZCTA\<close>), the standardising
  block of the extraction script, which is also the notebook's block for every chunk
  after the first and for a first chunk of the county, state and ZCTA levels, succeeds
  and indexes the frame by the concatenation of the zero-padded fields in fixed order.
  The notebook's block for a first tract chunk builds the same key as the column
  \<open>GEOID\<close>. \<^verbatim>\<open>zfill\<close> pads and never truncates: the width of a key is the sum, over its
  segments, of the larger of the segment width and the length of the field's text, so
  it is the documented width (11, 5, 2, 5) when no field is longer than its segment and
  larger otherwise. The key is a function of the raw fields, so the same fields give
  the same key.
\<close>

theorem geo_key_is_padded_concatenation:
  "(get_col df ''state'' = Inr ss \<and> get_col df ''county'' = Inr cs \<and> get_col df ''tract'' = Inr ts
      \<longrightarrow> (\<exists>d. standardize is_zip ''tract'' df = Inr d
             \<and> index d = map (\<lambda>p. Key (Text (tract_key (fst (fst p)) (snd (fst p)) (snd p))))
                           (zip (zip ss cs) ts))
          \<and> (\<exists>d. standardize_first ''tract'' df = Inr d
             \<and> get_col d ''GEOID'' =
                 Inr (map (\<lambda>p. Text (tract_key (fst (fst p)) (snd (fst p)) (snd p)))
                        (zip (zip ss cs) ts))))
   \<and> (get_col df ''state'' = Inr ss \<and> get_col df ''county'' = Inr cs
      \<longrightarrow> (\<exists>d. standardize is_zip ''county'' df = Inr d
             \<and> index d = map (\<lambda>p. Key (Text (county_key (fst p) (snd p)))) (zip ss cs)))
   \<and> (get_col df ''state'' = Inr ss
      \<longrightarrow> (\<exists>d. standardize is_zip ''state'' df = Inr d
             \<and> index d = map (\<lambda>s. Key (Text (state_key s))) ss))
   \<and> (filter (\<lambda>c. is_zip (lower c) \<or> upper c = ''ZCTA'') (columns df) = g # rest
        \<and> filter (\<lambda>c. c = g \<or> c = ''ZCTA'') (columns df) = [g]
        \<and> get_col df g = Inr zs
      \<longrightarrow> (\<exists>d. standardize is_zip ''zcta'' df = Inr d
             \<and> index d = map (\<lambda>z. Key (Text (zcta_key z))) zs))
   \<and> (geo_level \<noteq> ''tract''
      \<longrightarrow> standardize_first geo_level df
            = standardize (\<lambda>c. startswith c ''zip'') geo_level df)
   \<and> (length (py_str s) \<le> 2 \<and> length (py_str c) \<le> 3 \<and> length (py_str t) \<le> 6
      \<longrightarrow> length (tract_key s c t) = 11 \<and> length (county_key s c) = 5
          \<and> length (state_key s) = 2)
   \<and> (length (py_str z) \<le> 5 \<longrightarrow> length (zcta_key z) = 5)
   \<and> length (tract_key s c t) =
        max 2 (length (py_str s)) + max 3 (length (py_str c)) + max 6 (length (py_str t))
   \<and> length (county_key s c) = max 2 (length (py_str s)) + max 3 (length (py_str c))
   \<and> length (state_key s) = max 2 (length (py_str s))
   \<and> length (zcta_key z) = max 5 (length (py_str z))"
proof (intro conjI impI)
  assume h: "get_col df ''state'' = Inr ss \<and> get_col df ''county'' = Inr cs
    \<and> get_col df ''tract'' = Inr ts"
  then show "\<exists>d. standardize is_zip ''tract'' df = Inr d
      \<and> index d = map (\<lambda>p. Key (Text (tract_key (fst (fst p)) (snd (fst p)) (snd p))))
                    (zip (zip ss cs) ts)"
    by (intro standardize_tract) simp_all
  from h show "\<exists>d. standardize_first ''tract'' df = Inr d
      \<and> get_col d ''GEOID'' =
          Inr (map (\<lambda>p. Text (tract_key (fst (fst p)) (snd (fst p)) (snd p)))
                 (zip (zip ss cs) ts))"
    by (intro standardize_first_tract) simp_all
next
  assume "get_col df ''state'' = Inr ss \<and> get_col df ''county'' = Inr cs"
  then show "\<exists>d. standardize is_zip ''county'' df = Inr d
      \<and> index d = map (\<lambda>p. Key (Text (county_key (fst p) (snd p)))) (zip ss cs)"
    by (intro standardize_county) simp_all
next
  assume "get_col df ''state'' = Inr ss"
  then show "\<exists>d. standardize is_zip ''state'' df = Inr d
      \<and> index d = map (\<lambda>s. Key (Text (state_key s))) ss"
    by (rule standardize_state)
next
  assume "filter (\<lambda>c. is_zip (lower c) \<or> upper c = ''ZCTA'') (columns df) = g # rest
    \<and> filter (\<lambda>c. c = g \<or> c = ''ZCTA'') (columns df) = [g]
    \<and> get_col df g = Inr zs"
  then show "\<exists>d. standardize is_zip ''zcta'' df = Inr d
      \<and> index d = map (\<lambda>z. Key (Text (zcta_key z))) zs"
    by (intro standardize_zcta [where g = g and rest = rest]) simp_all
next
  assume "geo_level \<noteq> ''tract''"
  then show "standardize_first geo_level df
      = standardize (\<lambda>c. startswith c ''zip'') geo_level df"
    by (rule standardize_first_other)
next
  assume h: "length (py_str s) \<le> 2 \<and> length (py_str c) \<le> 3 \<and> length (py_str t) \<le> 6"
  then show "length (tract_key s c t) = 11" "length (county_key s c) = 5"
    "length (state_key s) = 2"
    by (simp_all add: key_widths max_def)
next
  assume "length (py_str z) \<le> 5"
  then show "length (zcta_key z) = 5" by (simp add: key_widths)
next
  show "length (tract_key s c t) =
      max 2 (length (py_str s)) + max 3 (length (py_str c)) + max 6 (length (py_str t))"
    "length (county_key s c) = max 2 (length (py_str s)) + max 3 (length (py_str c))"
    "length (state_key s) = max 2 (length (py_str s))"
    "length (zcta_key z) = max 5 (length (py_str z))"
    by (rule key_widths)+
qed

lemma zip_column_lower:
  "contains (lower ''zip code tabulation area'') ''zip''"
  by (simp add: lower_def lower_letters_def upper_letters_def)

theorem geo_key_is_padded_concatenation_witness:
  "(\<exists>d. standardize (\<lambda>c. contains c ''zip'') ''tract'' one_tract_frame = Inr d
        \<and> index d = [Key (Text ''06037101110'')])
   \<and> (\<exists>d. standardize_first ''tract'' one_tract_frame = Inr d
        \<and> get_col d ''GEOID'' = Inr [Text ''06037101110''])
   \<and> (\<exists>d. standardize (\<lambda>c. contains c ''zip'') ''county'' one_tract_frame = Inr d
        \<and> index d = [Key (Text ''06037'')])
   \<and> (\<exists>d. standardize (\<lambda>c. contains c ''zip'') ''state'' one_tract_frame = Inr d
        \<and> index d = [Key (Text ''06'')])
   \<and> (\<exists>d. standardize (\<lambda>c. contains c ''zip'') ''zcta'' one_zcta_frame = Inr d
        \<and> index d = [Key (Text ''00601'')])
   \<and> standardize_first ''county'' one_tract_frame
       = standardize (\<lambda>c. startswith c ''zip'') ''county'' one_tract_frame
   \<and> length (tract_key (Text ''6'') (Text ''37'') (Text ''101110'')) = 11
   \<and> length (zcta_key (Text ''601'')) = 5"
proof -
  have g: "get_col one_tract_frame ''state'' = Inr [Text ''6'']"
    "get_col one_tract_frame ''county'' = Inr [Text ''37'']"
    "get_col one_tract_frame ''tract'' = Inr [Text ''101110'']"
    by (simp_all add: one_tract_frame_def get_col_def)
  have z: "filter (\<lambda>c. contains (lower c) ''zip'' \<or> upper c = ''ZCTA'') (columns one_zcta_frame)
      = ''zip code tabulation area'' # []"
    "filter (\<lambda>c. c = ''zip code tabulation area'' \<or> c = ''ZCTA'') (columns one_zcta_frame)
      = [''zip code tabulation area'']"
    "get_col one_zcta_frame ''zip code tabulation area'' = Inr [Text ''601'']"
    by (simp_all add: one_zcta_frame_def get_col_def columns_def lower_def upper_def
        lower_letters_def upper_letters_def)
  note t = geo_key_is_padded_concatenation [where df = one_tract_frame
      and is_zip = "\<lambda>c. contains c ''zip''" and ss = "[Text ''6'']" and cs = "[Text ''37'']"
      and ts = "[Text ''101110'']" and s = "Text ''6''" and c = "Text ''37''"
      and t = "Text ''101110''" and z = "Text ''601''" and geo_level = "''county''"]
  note u = geo_key_is_padded_concatenation [where df = one_zcta_frame
      and is_zip = "\<lambda>c. contains c ''zip''" and g = "''zip code tabulation area''"
      and rest = "[]" and zs = "[Text ''601'']"]
  from t g have "\<exists>d. standardize (\<lambda>c. contains c ''zip'') ''tract'' one_tract_frame = Inr d
      \<and> index d = [Key (Text (tract_key (Text ''6'') (Text ''37'') (Text ''101110'')))]"
    by simp
  moreover from t g have "\<exists>d. standardize_first ''tract'' one_tract_frame = Inr d
      \<and> get_col d ''GEOID'' = Inr [Text (tract_key (Text ''6'') (Text ''37'') (Text ''101110''))]"
    by simp
  moreover from t g have "\<exists>d. standardize (\<lambda>c. contains c ''zip'') ''county'' one_tract_frame = Inr d
      \<and> index d = [Key (Text (county_key (Text ''6'') (Text ''37'')))]"
    by simp
  moreover from t g have "\<exists>d. standardize (\<lambda>c. contains c ''zip'') ''state'' one_tract_frame = Inr d
      \<and> index d = [Key (Text (state_key (Text ''6'')))]"
    by simp
  moreover from u z have "\<exists>d. standardize (\<lambda>c. contains c ''zip'') ''zcta'' one_zcta_frame = Inr d
      \<and> index d = [Key (Text (zcta_key (Text ''601'')))]"
    by simp
  moreover from t have "standardize_first ''county'' one_tract_frame
       = standardize (\<lambda>c. startswith c ''zip'') ''county'' one_tract_frame"
    by simp
  moreover from t have "length (tract_key (Text ''6'') (Text ''37'') (Text ''101110'')) = 11"
    "length (zcta_key (Text ''601'')) = 5"
    by simp_all
  ultimately show ?thesis
    by (simp add: tract_key_def county_key_def state_key_def zcta_key_def zfill_def
        eval_nat_numeral)
qed

text \<open>
  The claim fails for a state field of three characters: the key is the field itself,
  three characters wide instead of two.
\<close>

theorem geo_key_wider_than_documented:
  "standardize (\<lambda>c. contains c ''zip'') ''state'' long_state_frame =
     Inr (Frame (Some ''state'') [Key (Text ''123'')] [(''X_001E'', [Text ''7''])])
   \<and> length ''123'' \<noteq> (2::nat)"
  by (simp add: long_state_frame_def standardize_def zfill_col_def set_index_def get_col_def
      set_col_def zfill_def)

section \<open>The left join keeps the rows of the left frame\<close>

lemma join_rows_labels: "set (map fst (join_rows lix rix)) = set lix"
proof -
  let ?f = "\<lambda>p. case matches (snd p) rix of
                   [] \<Rightarrow> [(snd p, fst p, None)]
                 | js \<Rightarrow> map (\<lambda>j. (snd p, fst p, Some j)) js"
  have one: "fst ` set (?f p) = {snd p}" for p :: "nat \<times> label"
    by (cases "matches (snd p) rix") (auto simp: image_iff)
  have "set (map fst (join_rows lix rix)) = (\<Union>p \<in> set (enumerate 0 lix). fst ` set (?f p))"
    by (auto simp: join_rows_def)
  also have "\<dots> = (\<Union>p \<in> set (enumerate 0 lix). {snd p})"
    using one by simp
  also have "\<dots> = snd ` set (enumerate 0 lix)"
    by blast
  also have "\<dots> = set (map snd (enumerate 0 lix))"
    by (simp only: set_map)
  also have "\<dots> = set lix"
    by (simp only: map_snd_enumerate)
  finally show ?thesis .
qed

lemma join_left_index:
  "join_left fill l r = Inr d \<Longrightarrow> set (index d) = set (index l)"
  using join_rows_labels [of "index l" "index r"]
  by (auto simp: join_left_def Let_def split: if_splits)

lemma join_left_iname: "join_left fill l r = Inr d \<Longrightarrow> iname d = iname l"
  by (auto simp: join_left_def Let_def split: if_splits)

lemma join_left_columns:
  "join_left fill l r = Inr d \<Longrightarrow> columns d = columns l @ columns r"
  by (auto simp: join_left_def Let_def columns_def o_def split: if_splits)

lemma index_coerce_numeric [simp]: "index (coerce_numeric d) = index d"
  by (simp add: coerce_numeric_def)

lemma fetch_loop_keeps_rows:
  "fetch_loop dl geo_level chs (Some full) reqs = (reqs', Inr r)
   \<Longrightarrow> \<exists>d. r = Some d \<and> set (index d) = set (index full)"
proof (induction chs arbitrary: full reqs)
  case Nil
  then show ?case by auto
next
  case (Cons ch chs)
  from Cons.prems obtain chunk_df sd d where
    "standardize (\<lambda>c. startswith c ''zip'') geo_level chunk_df = Inr sd"
    "join_left PyNaN full sd = Inr d"
    "fetch_loop dl geo_level chs (Some d) (reqs @ [(ch, geo_level)]) = (reqs', Inr r)"
    by (auto simp: thn_eq_Inr split: sum.splits)
  with Cons.IH [of d] join_left_index [of PyNaN full sd d] show ?case by auto
qed

lemma fetch_geo_data_first_chunk_rows:
  assumes "fetch_geo_data dl vs geo_level reqs = (reqs', Inr df)"
  shows "\<exists>ch rest raw first. chunk_vars vs = ch # rest
     \<and> dl (length reqs) ch geo_level = Inr raw
     \<and> standardize_first geo_level raw = Inr first
     \<and> set (index df) = set (index first)"
proof -
  from assms obtain d where
    loop: "fetch_loop dl geo_level (chunk_vars vs) None reqs = (reqs', Inr (Some d))"
    and df: "df = coerce_numeric d"
    by (auto simp: fetch_geo_data_def split: if_splits prod.splits sum.splits option.splits)
  show ?thesis
  proof (cases "chunk_vars vs")
    case Nil
    with loop show ?thesis by simp
  next
    case (Cons ch rest)
    with loop obtain raw first where
      "dl (length reqs) ch geo_level = Inr raw" "standardize_first geo_level raw = Inr first"
      "fetch_loop dl geo_level rest (Some first) (reqs @ [(ch, geo_level)]) = (reqs', Inr (Some d))"
      by (auto split: sum.splits)
    with fetch_loop_keeps_rows [of dl geo_level rest first _ reqs' "Some d"] Cons df
    show ?thesis by auto
  qed
qed

text \<open>
  A join that succeeds drops the label that only the right frame carries: the second
  chunk of the service below has a second state, and the fetched frame has the first
  chunk's state alone.
\<close>

lemma fetch_growing:
  "fetch_geo_data growing_service fifty_one_vars ''state'' [] =
     ([(replicate 50 ''A'', ''state''), ([''B''], ''state'')],
      Inr (Frame (Some ''state'') [Key (Text ''06'')]
             [(''A'', [Num (Fin 1)]), (''B'', [Num (Fin 2)])]))"
  by code_simp

lemma standardize_growing_second:
  "standardize (\<lambda>c. startswith c ''zip'') ''state''
       (Frame None [Pos 0, Pos 1] [(''state'', [Text ''6'', Text ''36'']), (''B'', [Text ''2'', Text ''3''])])
     = Inr (Frame (Some ''state'') [Key (Text ''06''), Key (Text ''36'')]
              [(''B'', [Text ''2'', Text ''3''])])"
  by code_simp

lemma join_growing:
  "join_left PyNaN (Frame (Some ''state'') [Key (Text ''06'')] [(''A'', [Text ''1''])])
       (Frame (Some ''state'') [Key (Text ''06''), Key (Text ''36'')] [(''B'', [Text ''2'', Text ''3''])])
     = Inr (Frame (Some ''state'') [Key (Text ''06'')] [(''A'', [Text ''1'']), (''B'', [Text ''2''])])"
  by code_simp

section \<open>Chunks that share a column\<close>

lemma in_columns_set_col: "c \<in> set (columns df) \<Longrightarrow> c \<in> set (columns (set_col df c' vs))"
  by (simp add: columns_set_col)

lemma zfill_col_columns:
  assumes "zfill_col df c w = Inr d"
  shows "c \<in> set (columns d)" "c' \<in> set (columns df) \<Longrightarrow> c' \<in> set (columns d)"
  using assms
  by (auto simp: zfill_col_def thn_eq_Inr columns_set_col dest: get_col_in_columns)

lemma set_index_columns:
  assumes "set_index df c = Inr d" "c' \<in> set (columns df)" "c' \<noteq> c"
  shows "c' \<in> set (columns d)"
  using assms by (auto simp: set_index_def thn_eq_Inr columns_def)

lemma geoid_tract_state:
  assumes "geoid_tract df = Inr d"
  shows "''state'' \<in> set (columns d)"
proof -
  from assms obtain d1 d2 d3 k where
    "zfill_col df ''state'' 2 = Inr d1" "zfill_col d1 ''county'' 3 = Inr d2"
    "zfill_col d2 ''tract'' 6 = Inr d3" "d = set_col d3 ''GEOID'' k"
    by (auto simp: geoid_tract_def thn_eq_Inr)
  then show ?thesis
    using zfill_col_columns in_columns_set_col by meson
qed

lemma fips_county_state:
  assumes "fips_county df = Inr d"
  shows "''state'' \<in> set (columns d)"
proof -
  from assms obtain d1 d2 k where
    "zfill_col df ''state'' 2 = Inr d1" "zfill_col d1 ''county'' 3 = Inr d2"
    "d = set_col d2 ''FIPS'' k"
    by (auto simp: fips_county_def thn_eq_Inr)
  then show ?thesis
    using zfill_col_columns in_columns_set_col by meson
qed

lemma standardize_keeps_state:
  assumes "standardize is_zip geo_level df = Inr d" "geo_level = ''tract'' \<or> geo_level = ''county''"
  shows "''state'' \<in> set (columns d)"
proof -
  have "\<exists>x c. ''state'' \<in> set (columns x) \<and> set_index x c = Inr d \<and> ''state'' \<noteq> c"
  proof (cases "geo_level = ''tract''")
    case True
    with assms(1) obtain x where "geoid_tract df = Inr x" "set_index x ''GEOID'' = Inr d"
      by (auto simp: standardize_def thn_eq_Inr)
    with geoid_tract_state [of df x] show ?thesis by auto
  next
    case False
    with assms obtain x where "fips_county df = Inr x" "set_index x ''FIPS'' = Inr d"
      by (auto simp: standardize_def thn_eq_Inr)
    with fips_county_state [of df x] show ?thesis by auto
  qed
  then show ?thesis using set_index_columns by blast
qed

lemma standardize_first_keeps_state:
  assumes "standardize_first geo_level df = Inr d" "geo_level = ''tract'' \<or> geo_level = ''county''"
  shows "''state'' \<in> set (columns d)"
  using assms geoid_tract_state standardize_keeps_state [of _ geo_level df d]
  by (auto simp: standardize_first_def)

lemma join_left_overlap:
  "c \<in> set (columns l) \<Longrightarrow> c \<in> set (columns r) \<Longrightarrow> join_left fill l r = Inl ValueError"
  by (auto simp: join_left_def list_ex_iff)

lemma join_left_keeps_columns:
  "join_left fill l r = Inr d \<Longrightarrow> c \<in> set (columns l) \<Longrightarrow> c \<in> set (columns d)"
  by (simp add: join_left_columns)

text \<open>
  At the tract and county levels every standardised chunk keeps its \<open>state\<close> column, so
  the join of a second chunk raises: a fetch of more than one chunk never completes
  there.
\<close>

lemma fetch_loop_second_chunk_fails:
  assumes "geo_level = ''tract'' \<or> geo_level = ''county''" "''state'' \<in> set (columns full)"
  shows "\<exists>reqs' e. fetch_loop dl geo_level (ch # rest) (Some full) reqs = (reqs', Inl e)"
proof (cases "dl (length reqs) ch geo_level")
  case (Inl e)
  then show ?thesis by simp
next
  case (Inr raw)
  show ?thesis
  proof (cases "standardize (\<lambda>c. startswith c ''zip'') geo_level raw")
    case (Inl e)
    with Inr show ?thesis by simp
  next
    case sd: (Inr d)
    from standardize_keeps_state [OF sd assms(1)] assms(2)
    have "join_left PyNaN full d = Inl ValueError" by (intro join_left_overlap)
    with Inr sd show ?thesis by simp
  qed
qed

lemma multi_chunk_tract_county_fails:
  assumes "geo_level = ''tract'' \<or> geo_level = ''county''" "chunk_vars vs = c1 # c2 # rest"
  shows "\<exists>reqs' e. fetch_geo_data dl vs geo_level reqs = (reqs', Inl e)"
proof -
  have g: "geo_level \<in> set geo_levels"
    using assms(1) by (auto simp: geo_levels_def)
  have "\<exists>reqs' e. fetch_loop dl geo_level (c1 # c2 # rest) None reqs = (reqs', Inl e)"
  proof (cases "dl (length reqs) c1 geo_level")
    case (Inl e)
    then show ?thesis by simp
  next
    case (Inr raw)
    show ?thesis
    proof (cases "standardize_first geo_level raw")
      case (Inl e)
      with Inr show ?thesis by simp
    next
      case first: (Inr d)
      from fetch_loop_second_chunk_fails [OF assms(1) standardize_first_keeps_state [OF first assms(1)]]
      obtain reqs' e where
        "fetch_loop dl geo_level (c2 # rest) (Some d) (reqs @ [(c1, geo_level)]) = (reqs', Inl e)"
        by blast
      with Inr first show ?thesis by simp
    qed
  qed
  with g assms(2) show ?thesis by (auto simp: fetch_geo_data_def)
qed

section \<open>The loop that adds the coefficient-of-variation columns\<close>

lemma cv_step_cases:
  assumes "cv_step df v = Inr d"
  shows "d = df \<or> (\<exists>cv. d = set_col df (v @ ''_CV'') cv)"
  using assms by (auto simp: cv_step_def Let_def thn_eq_Inr split: if_splits)

lemma cv_step_other:
  assumes "cv_step df v = Inr d" "c \<noteq> v @ ''_CV''"
  shows "get_col d c = get_col df c"
  using cv_step_cases [OF assms(1)] assms(2) by auto

lemma cv_step_columns:
  assumes "cv_step df v = Inr d" "c \<in> set (columns d)"
  shows "c \<in> set (columns df) \<or> c = v @ ''_CV''"
  using cv_step_cases [OF assms(1)] assms(2) by (auto simp: columns_set_col split: if_splits)

lemma cv_step_absent:
  "v \<notin> set (columns df) \<or> str_replace CHR ''E'' CHR ''M'' v \<notin> set (columns df)
   \<Longrightarrow> cv_step df v = Inr df"
  by (auto simp: cv_step_def Let_def)


lemma cv_loop_other:
  assumes "cv_loop df vs = Inr df'" "\<forall>v \<in> set vs. c \<noteq> v @ ''_CV''"
  shows "get_col df' c = get_col df c"
  using assms
proof (induction vs arbitrary: df)
  case Nil
  then show ?case by simp
next
  case (Cons v vs)
  from Cons.prems(1) obtain d where d: "cv_step df v = Inr d" "cv_loop d vs = Inr df'"
    by (auto simp: thn_eq_Inr)
  from Cons.IH [OF d(2)] Cons.prems(2) have "get_col df' c = get_col d c" by simp
  also from cv_step_other [OF d(1)] Cons.prems(2) have "\<dots> = get_col df c" by simp
  finally show ?case .
qed


text \<open>A code that ends in \<open>E\<close>, and its margin-of-error code, are not names of added columns.\<close>

lemma last_str_replace:
  "s \<noteq> [] \<Longrightarrow> last (str_replace a b s) = (if last s = a then b else last s)"
  by (simp add: str_replace_def last_map)

lemma estimate_code_not_cv:
  assumes "est \<noteq> []" "last est = CHR ''E''"
  shows "est \<noteq> v @ ''_CV''" "str_replace CHR ''E'' CHR ''M'' est \<noteq> v @ ''_CV''"
proof -
  have l: "last (v @ ''_CV'') = CHR ''V''" by simp
  from assms show "est \<noteq> v @ ''_CV''" using l by auto
  from assms have "last (str_replace CHR ''E'' CHR ''M'' est) = CHR ''M''"
    by (simp add: last_str_replace)
  then show "str_replace CHR ''E'' CHR ''M'' est \<noteq> v @ ''_CV''" using l by auto
qed

lemma cv_loop_keeps_estimate_columns:
  assumes "cv_loop df vs = Inr df'" "est \<noteq> []" "last est = CHR ''E''"
  shows "get_col df' est = get_col df est"
    "get_col df' (str_replace CHR ''E'' CHR ''M'' est) = get_col df (str_replace CHR ''E'' CHR ''M'' est)"
  using cv_loop_other [OF assms(1)] estimate_code_not_cv [OF assms(2,3)] by blast+

lemma cv_loop_skips:
  assumes "cv_loop df vs = Inr df'" "est \<noteq> []" "last est = CHR ''E''"
    and "est \<notin> set (columns df) \<or> str_replace CHR ''E'' CHR ''M'' est \<notin> set (columns df)"
  shows "get_col df' (est @ ''_CV'') = get_col df (est @ ''_CV'')"
  using assms(1,4)
proof (induction vs arbitrary: df)
  case Nil
  then show ?case by simp
next
  case (Cons v vs)
  from Cons.prems(1) obtain d where d: "cv_step df v = Inr d" "cv_loop d vs = Inr df'"
    by (auto simp: thn_eq_Inr)
  have absent: "est \<notin> set (columns d) \<or> str_replace CHR ''E'' CHR ''M'' est \<notin> set (columns d)"
    using Cons.prems(2) cv_step_columns [OF d(1)] estimate_code_not_cv [OF assms(2,3), of v]
    by blast
  have "get_col d (est @ ''_CV'') = get_col df (est @ ''_CV'')"
  proof (cases "v = est")
    case True
    with cv_step_absent [OF Cons.prems(2)] d(1) show ?thesis by simp
  next
    case False
    then show ?thesis by (intro cv_step_other [OF d(1)]) simp
  qed
  with Cons.IH [OF d(2) absent] show ?case by simp
qed

lemma in_columns_iff_get_col: "c \<in> set (columns df) \<longleftrightarrow> (\<exists>vs. get_col df c = Inr vs)"
  using get_col_in_columns in_columns_get_col by blast

text \<open>
  C10. When the estimate column or the derived margin-of-error column is absent, the
  loop body for that variable returns the frame as it is, without an error. Over the
  whole loop, for a code that ends in the field type \<open>E\<close>, the column \<open><code>_CV\<close> is
  neither added nor changed.
\<close>

theorem cv_skipped_when_column_absent:
  "(est \<notin> set (columns df) \<or> str_replace CHR ''E'' CHR ''M'' est \<notin> set (columns df)
      \<longrightarrow> cv_step df est = Inr df)
   \<and> (est \<noteq> [] \<and> last est = CHR ''E''
       \<and> (est \<notin> set (columns df) \<or> str_replace CHR ''E'' CHR ''M'' est \<notin> set (columns df))
       \<and> cv_loop df var_codes = Inr df'
      \<longrightarrow> get_col df' (est @ ''_CV'') = get_col df (est @ ''_CV'')
          \<and> (est @ ''_CV'' \<in> set (columns df') \<longleftrightarrow> est @ ''_CV'' \<in> set (columns df)))"
proof (intro conjI impI)
  assume "est \<notin> set (columns df) \<or> str_replace CHR ''E'' CHR ''M'' est \<notin> set (columns df)"
  then show "cv_step df est = Inr df" by (rule cv_step_absent)
next
  assume h: "est \<noteq> [] \<and> last est = CHR ''E''
       \<and> (est \<notin> set (columns df) \<or> str_replace CHR ''E'' CHR ''M'' est \<notin> set (columns df))
       \<and> cv_loop df var_codes = Inr df'"
  then show g: "get_col df' (est @ ''_CV'') = get_col df (est @ ''_CV'')"
    by (intro cv_loop_skips [where vs = var_codes]) simp_all
  then show "est @ ''_CV'' \<in> set (columns df') \<longleftrightarrow> est @ ''_CV'' \<in> set (columns df)"
    by (simp add: in_columns_iff_get_col)
qed

lemma cv_loop_population:
  "cv_loop population_frame [''B01003_001E'', ''X_002E''] =
     Inr (Frame (Some ''state'') [Key (Text ''06''), Key (Text ''36'')]
            [(''NAME'', [Obj (Text ''California''), Obj (Text ''New York'')]),
             (''B01003_001E'', [Num (Fin 1000000), Num (Fin 1000000)]),
             (''B01003_001M'', [Num (Fin 1645), Num (Fin 1645)]),
             (''X_002E'', [Num (Fin 5), Num NaN]),
             (''B01003_001E_CV'', [Num (Fin (1 / 10)), Num (Fin (1 / 10))])])"
  by (simp add: population_frame_def cv_step_def str_replace_def columns_def get_col_def
      set_col_def cv_column_def cv_value_def)

theorem cv_skipped_when_column_absent_witness:
  "cv_step population_frame ''X_002E'' = Inr population_frame
   \<and> ''X_002E_CV'' \<notin> set (columns population_frame)
   \<and> (\<exists>df'. cv_loop population_frame [''B01003_001E'', ''X_002E''] = Inr df'
         \<and> ''X_002E_CV'' \<notin> set (columns df')
         \<and> ''B01003_001E_CV'' \<in> set (columns df'))"
proof -
  have absent: "''X_002M'' \<notin> set (columns population_frame)"
    "''X_002E_CV'' \<notin> set (columns population_frame)"
    by (simp_all add: population_frame_def columns_def)
  have r: "str_replace CHR ''E'' CHR ''M'' ''X_002E'' = ''X_002M''"
    by (simp add: str_replace_def)
  note t = cv_skipped_when_column_absent [where est = "''X_002E''" and df = population_frame
      and var_codes = "[''B01003_001E'', ''X_002E'']", unfolded r]
  from t absent have 1: "cv_step population_frame ''X_002E'' = Inr population_frame"
    by simp
  from t absent cv_loop_population
  have 2: "\<exists>df'. cv_loop population_frame [''B01003_001E'', ''X_002E''] = Inr df'
         \<and> ''X_002E_CV'' \<notin> set (columns df') \<and> ''B01003_001E_CV'' \<in> set (columns df')"
    by (simp add: columns_def)
  from 1 2 absent show ?thesis by simp
qed

section \<open>What the annotation adds\<close>















section \<open>Evaluating the scripts on concrete answers\<close>

lemma digit_of_simps:
  "digit_of CHR ''0'' = Some 0" "digit_of CHR ''1'' = Some 1" "digit_of CHR ''2'' = Some 2"
  "digit_of CHR ''3'' = Some 3" "digit_of CHR ''4'' = Some 4" "digit_of CHR ''5'' = Some 5"
  "digit_of CHR ''6'' = Some 6" "digit_of CHR ''7'' = Some 7" "digit_of CHR ''8'' = Some 8"
  "digit_of CHR ''9'' = Some 9"
  by (simp_all add: digit_of_def upt_rec)

lemma replicate_numeral: "replicate (numeral k) x = x # replicate (pred_numeral k) x"
  by (simp add: numeral_eq_Suc)

lemmas eval_std = fetch_data_chunk_def geo_levels_def standardize_def geoid_tract_def
  fips_county_def zcta_block_def zfill_col_def get_col_def set_col_def set_index_def
  coerce_numeric_def passthrough_def zfill_def parse_number_def parse_unsigned_def
  digit_of_simps replicate_numeral columns_def

lemma retry_limit_unfold:
  "retry_loop dl chunk geo RETRY_LIMIT st = retry_loop dl chunk geo (Suc (Suc (Suc 0))) st"
  by (simp add: RETRY_LIMIT_def eval_nat_numeral)

lemma chunk_vars_two: "chunk_vars [a, b] = [[a, b]]"
  by (simp add: chunk_vars_def chunks_from.simps MAX_VARS_PER_CALL_def)

lemmas eval_run = eval_std retry_limit_unfold chunk_vars_two extract_unit_def moe_codes_def
  str_replace_def cv_step_def cv_column_def cv_value_def output_file_def initial_state_def
  WAIT_BETWEEN_RETRIES_def

section \<open>Retries in the extraction script\<close>

text \<open>
  When every attempt times out, the retry loop has issued the request once per attempt
  and slept after each; it ends without an error and without touching \<^verbatim>\<open>chunk_df\<close>.
\<close>

lemma retry_loop_exhausted:
  assumes "geo \<in> set geo_levels"
    and "\<forall>k < n. dl (length (st_requests st) + k) chunk geo = Inl ReadTimeout"
  shows "retry_loop dl chunk geo n st =
     (st\<lparr>st_requests := st_requests st @ replicate n (chunk, geo),
         st_sleeps := st_sleeps st @ replicate n WAIT_BETWEEN_RETRIES\<rparr>, None)"
  using assms(2)
proof (induction n arbitrary: st)
  case 0
  then show ?case by simp
next
  case (Suc n)
  let ?st = "st\<lparr>st_requests := st_requests st @ [(chunk, geo)],
      st_sleeps := st_sleeps st @ [WAIT_BETWEEN_RETRIES]\<rparr>"
  from Suc.prems have "dl (length (st_requests st) + 0) chunk geo = Inl ReadTimeout"
    by blast
  then have first: "dl (length (st_requests st)) chunk geo = Inl ReadTimeout"
    by simp
  have "\<forall>k < n. dl (length (st_requests ?st) + k) chunk geo = Inl ReadTimeout"
  proof (intro allI impI)
    fix k assume "k < n"
    then have "Suc k < Suc n" by simp
    with Suc.prems have "dl (length (st_requests st) + Suc k) chunk geo = Inl ReadTimeout"
      by blast
    then show "dl (length (st_requests ?st) + k) chunk geo = Inl ReadTimeout" by simp
  qed
  from Suc.IH [OF this] first assms(1) show ?case
    by (simp add: fetch_data_chunk_def replicate_app_Cons_same)
qed

lemma acs_pattern_examples:
  "acs_pattern ''B01003_001E''" "\<not> acs_pattern ''X_001E''" "\<not> acs_pattern ''B01001E_001E''"
  by (simp_all add: acs_pattern_def is_capital_def is_digit_def)

text \<open>
  C3. The extraction script retries a timed-out chunk three times, two seconds apart,
  but when the third attempt fails it goes on as if the chunk had arrived. With the
  table \<open>B01003\<close> and its variable \<open>B01003_001E\<close>, and a service that times out on every
  ZCTA request: the tract level is fetched and written; the ZCTA request is issued
  three times; then the frame still held in \<^verbatim>\<open>chunk_df\<close>, the tract data, is written as
  the ZCTA file, and the run continues with county and state and ends without an
  error.
\<close>

theorem exhausted_retries_write_stale_chunk:
  "extract_tables timeout_on_zcta [(''B01003'', [''B01003_001E''])] initial_state =
     (\<lparr>st_requests =
          [([''B01003_001E'', ''B01003_001M''], ''tract''),
           ([''B01003_001E'', ''B01003_001M''], ''zcta''),
           ([''B01003_001E'', ''B01003_001M''], ''zcta''),
           ([''B01003_001E'', ''B01003_001M''], ''zcta''),
           ([''B01003_001E'', ''B01003_001M''], ''county''),
           ([''B01003_001E'', ''B01003_001M''], ''state'')],
        st_sleeps = [2, 2, 2],
        st_chunk_df = Some (Frame (Some ''state'') [Key (Text ''06'')]
           [(''county'', [Num (Fin 37)]), (''tract'', [Num (Fin 101110)]),
            (''B01003_001E'', [Num (Fin 4000)]), (''B01003_001M'', [Num (Fin 329)]),
            (''B01003_001E_CV'', [Num (Fin 5)])]),
        st_files =
          [(''acs5_2022_B01003_tract.parquet'', tract_result),
           (''acs5_2022_B01003_zcta.parquet'', tract_result),
           (''acs5_2022_B01003_county.parquet'',
              Frame (Some ''FIPS'') [Key (Text ''06037'')]
                [(''state'', [Num (Fin 6)]), (''county'', [Num (Fin 37)]),
                 (''tract'', [Num (Fin 101110)]),
                 (''B01003_001E'', [Num (Fin 4000)]), (''B01003_001M'', [Num (Fin 329)]),
                 (''B01003_001E_CV'', [Num (Fin 5)])]),
           (''acs5_2022_B01003_state.parquet'',
              Frame (Some ''state'') [Key (Text ''06'')]
                [(''county'', [Num (Fin 37)]), (''tract'', [Num (Fin 101110)]),
                 (''B01003_001E'', [Num (Fin 4000)]), (''B01003_001M'', [Num (Fin 329)]),
                 (''B01003_001E_CV'', [Num (Fin 5)])])]\<rparr>,
      None)"
  by (simp add: eval_run acs_pattern_examples timeout_on_zcta_def population_tract_frame_def
      tract_result_def Let_def)

section \<open>Numeric coercion and the index\<close>

lemma coerce_numeric_is_num:
  "(c, vs) \<in> set (cols (coerce_numeric d)) \<Longrightarrow> \<not> passthrough c \<Longrightarrow> list_all is_num vs"
  by (auto simp: coerce_numeric_def list_all_iff)

lemma fetch_geo_data_numeric:
  assumes "fetch_geo_data dl vs geo_level reqs = (reqs', Inr df)"
    and "(c, col) \<in> set (cols df)" "\<not> passthrough c"
  shows "list_all is_num col"
proof -
  from assms(1) obtain d where "df = coerce_numeric d"
    by (auto simp: fetch_geo_data_def split: if_splits prod.splits sum.splits option.splits)
  with assms(2,3) show ?thesis by (auto dest: coerce_numeric_is_num)
qed

lemma fetch_data_chunk_numeric:
  assumes "fetch_data_chunk dl vs geo_level reqs = (reqs', Inr df)"
    and "(c, col) \<in> set (cols df)" "\<not> passthrough c"
  shows "list_all is_num col"
proof -
  from assms(1) obtain d where "df = coerce_numeric d"
    by (auto simp: fetch_data_chunk_def thn_eq_Inr split: if_splits)
  with assms(2,3) show ?thesis by (auto dest: coerce_numeric_is_num)
qed

lemma fetch_one_tract:
  "fetch_geo_data one_tract_service [''X_001E'', ''X_001M''] ''tract'' [] =
     ([([''X_001E'', ''X_001M''], ''tract'')],
      Inr (Frame None [Pos 0]
             [(''state'', [Num (Fin 6)]), (''county'', [Num (Fin 37)]),
              (''tract'', [Num (Fin 101110)]), (''X_001E'', [Num (Fin 4219)]),
              (''GEOID'', [Num (Fin 6037101110)])]))"
  by (simp add: eval_std fetch_geo_data_def standardize_first_def chunk_vars_two
      one_tract_service_def one_tract_frame_def)

lemma unit_tract_saved:
  "etl_unit one_tract_service (\<lambda>name. True) ''X'' [''X_001E''] [''X_001E'', ''X_001M''] ''tract''
       empty_lakehouse =
     (\<lparr>etl_requests = [([''X_001E'', ''X_001M''], ''tract'')],
        etl_saved =
          [(''Bronze.census_acs2022_X_tract'', Some ''state'',
            Frame None [Pos 0]
              [(''index'', [Num (Fin 0)]),
               (''state'', [Num (Fin 6)]), (''county'', [Num (Fin 37)]),
               (''tract'', [Num (Fin 101110)]), (''X_001E'', [Num (Fin 4219)]),
               (''GEOID'', [Num (Fin 6037101110)])])]\<rparr>, None)"
  by (simp add: etl_unit_def fetch_one_tract empty_lakehouse_def cv_step_def str_replace_def
      reset_index_def geometry_wkt_def target_table_name_def columns_def)

text \<open>
  C9. Every column but \<open>NAME\<close> and \<open>geometry\<close> is coerced to numbers, the dimension
  columns included (\<open>fetch_geo_data_numeric\<close>, \<open>fetch_data_chunk_numeric\<close>), and the
  extraction script keeps the zero-padded key as the index. In the notebook's tract
  branch the key never becomes the index: \<open>GEOID\<close> stays a column and is coerced like
  the others, so the saved tract table has the row number as its index column and the
  number 6037101110 where the key \<open>06037101110\<close> should be.
\<close>

theorem tract_key_coerced_to_number:
  "etl_unit one_tract_service (\<lambda>name. True) ''X'' [''X_001E''] [''X_001E'', ''X_001M''] ''tract''
       empty_lakehouse =
     (\<lparr>etl_requests = [([''X_001E'', ''X_001M''], ''tract'')],
        etl_saved =
          [(''Bronze.census_acs2022_X_tract'', Some ''state'',
            Frame None [Pos 0]
              [(''index'', [Num (Fin 0)]),
               (''state'', [Num (Fin 6)]), (''county'', [Num (Fin 37)]),
               (''tract'', [Num (Fin 101110)]), (''X_001E'', [Num (Fin 4219)]),
               (''GEOID'', [Num (Fin 6037101110)])])]\<rparr>, None)
   \<and> fetch_data_chunk one_tract_service [''X_001E'', ''X_001M''] ''tract'' [] =
       ([([''X_001E'', ''X_001M''], ''tract'')],
        Inr (Frame (Some ''GEOID'') [Key (Text ''06037101110'')]
               [(''state'', [Num (Fin 6)]), (''county'', [Num (Fin 37)]),
                (''tract'', [Num (Fin 101110)]), (''X_001E'', [Num (Fin 4219)])]))"
  by (simp add: unit_tract_saved eval_std one_tract_service_def one_tract_frame_def)

section \<open>Fetches of more than one chunk\<close>

lemma chunk_vars_two_chunks:
  assumes "50 < length xs" "length xs \<le> 100"
  shows "chunk_vars xs = [take 50 xs, drop 50 xs]"
proof -
  have "chunks_from 100 xs = []"
    using assms by (subst chunks_from.simps) simp
  then have "chunks_from 50 xs = [take 50 (drop 50 xs)]"
    using assms by (subst chunks_from.simps) (simp add: MAX_VARS_PER_CALL_def)
  moreover from assms have "xs \<noteq> []" by auto
  ultimately have "chunks_from 0 xs = [take 50 xs, take 50 (drop 50 xs)]"
    by (subst chunks_from.simps) (simp add: MAX_VARS_PER_CALL_def)
  with assms show ?thesis by (simp add: chunk_vars_def)
qed

lemma chunk_vars_three_chunks:
  assumes "100 < length xs" "length xs \<le> 150"
  shows "chunk_vars xs = [take 50 xs, take 50 (drop 50 xs), drop 100 xs]"
proof -
  have "chunks_from 150 xs = []"
    using assms by (subst chunks_from.simps) simp
  then have "chunks_from 100 xs = [take 50 (drop 100 xs)]"
    using assms by (subst chunks_from.simps) (simp add: MAX_VARS_PER_CALL_def)
  then have "chunks_from 50 xs = [take 50 (drop 50 xs), take 50 (drop 100 xs)]"
    using assms by (subst chunks_from.simps) (simp add: MAX_VARS_PER_CALL_def)
  moreover from assms have "xs \<noteq> []" by auto
  ultimately have "chunks_from 0 xs = [take 50 xs, take 50 (drop 50 xs), take 50 (drop 100 xs)]"
    by (subst chunks_from.simps) (simp add: MAX_VARS_PER_CALL_def)
  with assms show ?thesis by (simp add: chunk_vars_def)
qed

lemma length_two_digits: "length two_digits = 60"
  by (simp add: two_digits_def)

lemma length_estimate_codes: "n \<le> 59 \<Longrightarrow> length (estimate_codes table n) = n"
  by (simp add: estimate_codes_def length_two_digits)

lemma length_requested_vars: "n \<le> 59 \<Longrightarrow> length (requested_vars table n) = 2 * n"
  by (simp add: requested_vars_def moe_codes_def length_estimate_codes)

lemma fetch_second_chunk_join_raises:
  assumes "geo_level = ''tract'' \<or> geo_level = ''county''"
    and "chunk_vars vs = c1 # c2 # rest"
    and "dl (length reqs) c1 geo_level = Inr raw1"
    and "standardize_first geo_level raw1 = Inr first"
    and "dl (Suc (length reqs)) c2 geo_level = Inr raw2"
    and "standardize (\<lambda>c. startswith c ''zip'') geo_level raw2 = Inr sd"
  shows "fetch_geo_data dl vs geo_level reqs
     = (reqs @ [(c1, geo_level), (c2, geo_level)], Inl ValueError)"
proof -
  have g: "geo_level \<in> set geo_levels"
    using assms(1) by (auto simp: geo_levels_def)
  have "join_left PyNaN first sd = Inl ValueError"
    using standardize_first_keeps_state [OF assms(4,1)] standardize_keeps_state [OF assms(6,1)]
    by (rule join_left_overlap)
  with assms g show ?thesis
    by (simp add: fetch_geo_data_def)
qed

lemma echo_columns:
  "get_col (Frame None [Pos 0]
            ([(''state'', [Text ''6'']), (''county'', [Text ''37'']), (''tract'', [Text ''101110''])]
             @ others)) ''state'' = Inr [Text ''6'']"
  "get_col (Frame None [Pos 0]
            ([(''state'', [Text ''6'']), (''county'', [Text ''37'']), (''tract'', [Text ''101110''])]
             @ others)) ''county'' = Inr [Text ''37'']"
  "get_col (Frame None [Pos 0]
            ([(''state'', [Text ''6'']), (''county'', [Text ''37'']), (''tract'', [Text ''101110''])]
             @ others)) ''tract'' = Inr [Text ''101110'']"
  by (simp_all add: get_col_def)

lemma echo_standardize:
  assumes "geo_level = ''tract'' \<or> geo_level = ''county''"
  shows "\<exists>raw. echo_service n vs geo_level = Inr raw
     \<and> (\<exists>d. standardize_first geo_level raw = Inr d)
     \<and> (\<exists>d. standardize is_zip geo_level raw = Inr d)"
proof -
  let ?raw = "Frame None [Pos 0]
            ([(''state'', [Text ''6'']), (''county'', [Text ''37'']), (''tract'', [Text ''101110''])]
             @ (map (\<lambda>v. (v, [Text ''1''])) vs @ [(''geometry'', [Geometry ''POLYGON EMPTY''])]))"
  have r: "echo_service n vs geo_level = Inr ?raw"
    by (simp add: echo_service_def)
  have t: "\<exists>d. standardize is_zip ''tract'' ?raw = Inr d" for is_zip
    using standardize_tract [OF echo_columns, where is_zip = is_zip] by blast
  have c: "\<exists>d. standardize is_zip ''county'' ?raw = Inr d" for is_zip
    using standardize_county [OF echo_columns(1,2), where is_zip = is_zip] by blast
  have f: "\<exists>d. standardize_first ''tract'' ?raw = Inr d"
    using standardize_first_tract [OF echo_columns] by blast
  from assms r t c f show ?thesis
    by (auto simp: standardize_first_other)
qed

lemma columns_coerce_numeric [simp]: "columns (coerce_numeric d) = columns d"
  by (simp add: coerce_numeric_def columns_def o_def)

lemma fetch_data_chunk_keeps_state:
  assumes "fetch_data_chunk dl c geo_level reqs = (r, Inr df)"
    and "geo_level = ''tract'' \<or> geo_level = ''county''"
  shows "''state'' \<in> set (columns df)"
proof -
  from assms(1) obtain raw d where "standardize (\<lambda>c. contains c ''zip'') geo_level raw = Inr d"
    "df = coerce_numeric d"
    by (auto simp: fetch_data_chunk_def thn_eq_Inr split: if_splits)
  with standardize_keeps_state [OF _ assms(2)] show ?thesis by simp
qed

lemma echo_fetch_data_chunk:
  assumes "geo_level = ''tract'' \<or> geo_level = ''county''"
  shows "\<exists>df. fetch_data_chunk echo_service c geo_level reqs = (reqs @ [(c, geo_level)], Inr df)"
proof -
  from echo_standardize [OF assms, of "length reqs" c "\<lambda>c. contains c ''zip''"]
  obtain raw d where "echo_service (length reqs) c geo_level = Inr raw"
    "standardize (\<lambda>c. contains c ''zip'') geo_level raw = Inr d"
    by blast
  with assms show ?thesis
    by (auto simp: fetch_data_chunk_def geo_levels_def)
qed

lemma retry_first_success:
  "fetch_data_chunk dl c geo (st_requests st) = (r, Inr df)
   \<Longrightarrow> retry_loop dl c geo RETRY_LIMIT st = (st\<lparr>st_requests := r, st_chunk_df := Some df\<rparr>, None)"
  by (simp add: retry_limit_unfold)

lemma chunk_loop_second_join_raises:
  assumes "geo = ''tract'' \<or> geo = ''county''"
    and "fetch_data_chunk dl c1 geo (st_requests st) = (r1, Inr df1)"
    and "fetch_data_chunk dl c2 geo r1 = (r2, Inr df2)"
  shows "chunk_loop dl geo (c1 # c2 # rest) None st
     = (st\<lparr>st_requests := r2, st_chunk_df := Some df2\<rparr>, Inl ValueError)"
proof -
  let ?st1 = "st\<lparr>st_requests := r1, st_chunk_df := Some df1\<rparr>"
  have a: "retry_loop dl c1 geo RETRY_LIMIT st = (?st1, None)"
    using assms(2) by (rule retry_first_success)
  have b: "retry_loop dl c2 geo RETRY_LIMIT ?st1
      = (?st1\<lparr>st_requests := r2, st_chunk_df := Some df2\<rparr>, None)"
    using assms(3) by (intro retry_first_success) simp
  have j: "join_left (Num NaN) df1 df2 = Inl ValueError"
    using fetch_data_chunk_keeps_state [OF assms(2,1)] fetch_data_chunk_keeps_state [OF assms(3,1)]
    by (rule join_left_overlap)
  show ?thesis
    by (simp add: a b j)
qed

lemma sex_by_age_codes_match:
  "filter acs_pattern (estimate_codes ''B01001'' 26) = estimate_codes ''B01001'' 26"
  by (simp add: estimate_codes_def two_digits_def acs_pattern_def is_capital_def is_digit_def)

text \<open>
  C5. A list of 102 variables (51 estimate codes of table C24010 followed by their
  margin-of-error codes) is cut into three groups, so three requests are due. At county
  level the notebook's fetcher issues the first two only: the join of the second chunk
  onto the first raises \<open>ValueError\<close>, because both chunks carry the \<open>state\<close> column,
  and the third group is never requested.
\<close>

theorem third_chunk_never_requested:
  "fetch_geo_data echo_service (requested_vars ''C24010'' 51) ''county'' []
     = (map (\<lambda>c. (c, ''county'')) (take 2 (chunk_vars (requested_vars ''C24010'' 51))),
        Inl ValueError)
   \<and> length (requested_vars ''C24010'' 51) = 102
   \<and> length (chunk_vars (requested_vars ''C24010'' 51)) = 3"
proof -
  let ?vs = "requested_vars ''C24010'' 51"
  have l: "length ?vs = 102"
    by (simp add: length_requested_vars)
  then have c: "chunk_vars ?vs = [take 50 ?vs, take 50 (drop 50 ?vs), drop 100 ?vs]"
    by (intro chunk_vars_three_chunks) simp_all
  have g: "''county'' = ''tract'' \<or> ''county'' = ''county''" by simp
  from echo_standardize [OF g, of 0 "take 50 ?vs" "\<lambda>c. startswith c ''zip''"]
  obtain raw1 first where 1: "echo_service 0 (take 50 ?vs) ''county'' = Inr raw1"
    "standardize_first ''county'' raw1 = Inr first"
    by blast
  from echo_standardize [OF g, of "Suc 0" "take 50 (drop 50 ?vs)" "\<lambda>c. startswith c ''zip''"]
  obtain raw2 sd where 2: "echo_service (Suc 0) (take 50 (drop 50 ?vs)) ''county'' = Inr raw2"
    "standardize (\<lambda>c. startswith c ''zip'') ''county'' raw2 = Inr sd"
    by blast
  have "fetch_geo_data echo_service ?vs ''county'' []
      = ([] @ [(take 50 ?vs, ''county''), (take 50 (drop 50 ?vs), ''county'')], Inl ValueError)"
    using g c 1 2 by (intro fetch_second_chunk_join_raises) simp_all
  with c l show ?thesis by simp
qed

text \<open>
  C7. A fetch of two chunks at tract level merges nothing. In the notebook's fetcher
  and in the extraction script alike both requests are issued and the join of the second
  chunk onto the first raises \<open>ValueError\<close>, because both chunks carry the \<open>state\<close>
  column; the extraction script ends there with no file written.
\<close>

theorem second_chunk_is_never_merged:
  "fetch_geo_data echo_service (requested_vars ''B01001'' 26) ''tract'' []
     = (map (\<lambda>c. (c, ''tract'')) (chunk_vars (requested_vars ''B01001'' 26)), Inl ValueError)
   \<and> length (chunk_vars (requested_vars ''B01001'' 26)) = 2
   \<and> (\<exists>st. extract_tables echo_service [(''B01001'', estimate_codes ''B01001'' 26)] initial_state
             = (st, Some ValueError)
         \<and> st_files st = []
         \<and> st_requests st
             = map (\<lambda>c. (c, ''tract'')) (chunk_vars (requested_vars ''B01001'' 26)))"
proof -
  let ?vs = "requested_vars ''B01001'' 26"
  have l: "length ?vs = 52"
    by (simp add: length_requested_vars)
  then have c: "chunk_vars ?vs = [take 50 ?vs, drop 50 ?vs]"
    by (intro chunk_vars_two_chunks) simp_all
  have g: "''tract'' = ''tract'' \<or> ''tract'' = ''county''" by simp
  from echo_standardize [OF g, of 0 "take 50 ?vs" "\<lambda>c. startswith c ''zip''"]
  obtain raw1 first where 1: "echo_service 0 (take 50 ?vs) ''tract'' = Inr raw1"
    "standardize_first ''tract'' raw1 = Inr first"
    by blast
  from echo_standardize [OF g, of "Suc 0" "drop 50 ?vs" "\<lambda>c. startswith c ''zip''"]
  obtain raw2 sd where 2: "echo_service (Suc 0) (drop 50 ?vs) ''tract'' = Inr raw2"
    "standardize (\<lambda>c. startswith c ''zip'') ''tract'' raw2 = Inr sd"
    by blast
  have n: "fetch_geo_data echo_service ?vs ''tract'' []
      = ([] @ [(take 50 ?vs, ''tract''), (drop 50 ?vs, ''tract'')], Inl ValueError)"
    using g c 1 2 by (intro fetch_second_chunk_join_raises) simp_all
  from echo_fetch_data_chunk [OF g, of "take 50 ?vs" "[]"]
  obtain df1 where d1: "fetch_data_chunk echo_service (take 50 ?vs) ''tract'' []
      = ([(take 50 ?vs, ''tract'')], Inr df1)"
    by auto
  from echo_fetch_data_chunk [OF g, of "drop 50 ?vs" "[(take 50 ?vs, ''tract'')]"]
  obtain df2 where d2: "fetch_data_chunk echo_service (drop 50 ?vs) ''tract'' [(take 50 ?vs, ''tract'')]
      = ([(take 50 ?vs, ''tract''), (drop 50 ?vs, ''tract'')], Inr df2)"
    by auto
  have "chunk_loop echo_service ''tract'' (take 50 ?vs # drop 50 ?vs # []) None initial_state
      = (initial_state\<lparr>st_requests := [(take 50 ?vs, ''tract''), (drop 50 ?vs, ''tract'')],
           st_chunk_df := Some df2\<rparr>, Inl ValueError)"
    using g d1 d2 by (intro chunk_loop_second_join_raises) (simp_all add: initial_state_def)
  with c have u: "extract_unit echo_service ''B01001'' (estimate_codes ''B01001'' 26) ?vs ''tract''
        initial_state
      = (initial_state\<lparr>st_requests := [(take 50 ?vs, ''tract''), (drop 50 ?vs, ''tract'')],
           st_chunk_df := Some df2\<rparr>, Some ValueError)"
    by (simp add: extract_unit_def)
  have ne: "?vs \<noteq> []" using l by auto
  have "extract_tables echo_service [(''B01001'', estimate_codes ''B01001'' 26)] initial_state
      = (initial_state\<lparr>st_requests := [(take 50 ?vs, ''tract''), (drop 50 ?vs, ''tract'')],
           st_chunk_df := Some df2\<rparr>, Some ValueError)"
    using u ne by (simp add: sex_by_age_codes_match geo_levels_def requested_vars_def Let_def)
  with n c show ?thesis
    by (simp add: initial_state_def)
qed

section \<open>Failures in the notebook's main loop\<close>

lemma etl_unit_failure_keeps_saved:
  "etl_unit dl sink_ok table_id var_codes all_vars geo st = (st', Some e)
   \<Longrightarrow> etl_saved st' = etl_saved st"
  by (auto simp: etl_unit_def split: prod.splits sum.splits if_splits)

lemma etl_geos_append:
  "etl_geos dl sink_ok table_id var_codes all_vars before st = (st1, None)
   \<Longrightarrow> etl_geos dl sink_ok table_id var_codes all_vars (before @ later) st
       = etl_geos dl sink_ok table_id var_codes all_vars later st1"
proof (induction before arbitrary: st)
  case Nil
  then show ?case by simp
next
  case (Cons g gs)
  from Cons.prems obtain sa where
    "etl_unit dl sink_ok table_id var_codes all_vars g st = (sa, None)"
    "etl_geos dl sink_ok table_id var_codes all_vars gs sa = (st1, None)"
    by (auto split: prod.splits option.splits)
  with Cons.IH [of sa] show ?case by simp
qed

text \<open>
  C8, as the code has it. Nothing in the notebook's loops catches an exception. When
  the units before a unit have succeeded and that unit fails (in the fetch, the
  annotation or the sink), the loop over the geographies ends there with that error,
  whatever units remain; the failing unit has written nothing, so the saved tables are
  those of the units before it; and the loop over the tables ends with the same error
  and state, whatever tables remain.
\<close>

theorem failure_ends_the_run:
  assumes "etl_geos dl sink_ok table_id var_codes all_vars before st = (st1, None)"
    and "etl_unit dl sink_ok table_id var_codes all_vars geo st1 = (st2, Some e)"
  shows "etl_geos dl sink_ok table_id var_codes all_vars (before @ geo # rest) st = (st2, Some e)
    \<and> etl_saved st2 = etl_saved st1
    \<and> (all_vars = var_codes @ moe_codes var_codes \<and> all_vars \<noteq> []
        \<and> geo_levels = before @ geo # rest
       \<longrightarrow> etl_tables dl sink_ok ((table_id, var_codes) # others) st = (st2, Some e))"
proof -
  have g: "etl_geos dl sink_ok table_id var_codes all_vars (before @ geo # rest) st = (st2, Some e)"
    using etl_geos_append [OF assms(1), of "geo # rest"] assms(2) by simp
  moreover have "etl_saved st2 = etl_saved st1"
    using assms(2) by (rule etl_unit_failure_keeps_saved)
  moreover have "etl_tables dl sink_ok ((table_id, var_codes) # others) st = (st2, Some e)"
    if "all_vars = var_codes @ moe_codes var_codes \<and> all_vars \<noteq> []
        \<and> geo_levels = before @ geo # rest"
  proof -
    from that have a: "all_vars = var_codes @ moe_codes var_codes"
      and n: "var_codes @ moe_codes var_codes \<noteq> []"
      and l: "geo_levels = before @ geo # rest"
      by blast+
    from g a l have "etl_geos dl sink_ok table_id var_codes (var_codes @ moe_codes var_codes)
        geo_levels st = (st2, Some e)"
      by simp
    with n show ?thesis by (simp add: Let_def del: append_is_Nil_conv)
  qed
  ultimately show ?thesis by blast
qed

lemma lower_state: "lower ''state'' = ''state''" "lower ''county'' = ''county''"
  "lower ''tract'' = ''tract''" "lower ''X_001E'' = ''x_001e''"
  "upper ''state'' = ''STATE''" "upper ''county'' = ''COUNTY''"
  "upper ''tract'' = ''TRACT''" "upper ''X_001E'' = ''X_001E''"
  by (simp_all add: lower_def upper_def lower_letters_def upper_letters_def)

lemma unit_zcta_fails:
  "etl_unit one_tract_service (\<lambda>name. True) ''X'' [''X_001E''] [''X_001E'', ''X_001M''] ''zcta''
       \<lparr>etl_requests = [([''X_001E'', ''X_001M''], ''tract'')], etl_saved = S\<rparr> =
     (\<lparr>etl_requests = [([''X_001E'', ''X_001M''], ''tract''), ([''X_001E'', ''X_001M''], ''zcta'')],
        etl_saved = S\<rparr>, Some IndexError)"
  by (simp add: etl_unit_def fetch_geo_data_def chunk_vars_two standardize_first_def eval_std
      one_tract_service_def one_tract_frame_def lower_state)

theorem failure_ends_the_run_witness:
  "etl_tables one_tract_service (\<lambda>name. True) [(''X'', [''X_001E'']), (''Y'', [''Y_001E''])]
       empty_lakehouse =
     (\<lparr>etl_requests = [([''X_001E'', ''X_001M''], ''tract''), ([''X_001E'', ''X_001M''], ''zcta'')],
        etl_saved =
          [(''Bronze.census_acs2022_X_tract'', Some ''state'',
            Frame None [Pos 0]
              [(''index'', [Num (Fin 0)]),
               (''state'', [Num (Fin 6)]), (''county'', [Num (Fin 37)]),
               (''tract'', [Num (Fin 101110)]), (''X_001E'', [Num (Fin 4219)]),
               (''GEOID'', [Num (Fin 6037101110)])])]\<rparr>,
      Some IndexError)"
proof -
  let ?saved = "[(''Bronze.census_acs2022_X_tract'', Some ''state'',
            Frame None [Pos 0]
              [(''index'', [Num (Fin 0)]),
               (''state'', [Num (Fin 6)]), (''county'', [Num (Fin 37)]),
               (''tract'', [Num (Fin 101110)]), (''X_001E'', [Num (Fin 4219)]),
               (''GEOID'', [Num (Fin 6037101110)])])]"
  let ?st1 = "\<lparr>etl_requests = [([''X_001E'', ''X_001M''], ''tract'')], etl_saved = ?saved\<rparr>"
  let ?st2 = "\<lparr>etl_requests = [([''X_001E'', ''X_001M''], ''tract''),
      ([''X_001E'', ''X_001M''], ''zcta'')], etl_saved = ?saved\<rparr>"
  have a: "etl_geos one_tract_service (\<lambda>name. True) ''X'' [''X_001E''] [''X_001E'', ''X_001M'']
      [''tract''] empty_lakehouse = (?st1, None)"
    by (simp add: unit_tract_saved)
  have b: "etl_unit one_tract_service (\<lambda>name. True) ''X'' [''X_001E''] [''X_001E'', ''X_001M'']
      ''zcta'' ?st1 = (?st2, Some IndexError)"
    by (rule unit_zcta_fails)
  from failure_ends_the_run [OF a b, of "[''county'', ''state'']" "[(''Y'', [''Y_001E''])]"]
  show ?thesis
    by (simp add: moe_codes_def str_replace_def geo_levels_def)
qed

text \<open>
  The claim fails when the tract request of the only table raises: the run ends with
  that error after one request, although the county unit, run from that state, would
  succeed and save its table.
\<close>

theorem failed_unit_stops_remaining_units:
  "etl_tables failing_tract_service (\<lambda>name. True) [(''X'', [''X_001E''])] empty_lakehouse =
     (\<lparr>etl_requests = [([''X_001E'', ''X_001M''], ''tract'')], etl_saved = []\<rparr>,
      Some ServiceError)
   \<and> etl_unit failing_tract_service (\<lambda>name. True) ''X'' [''X_001E''] [''X_001E'', ''X_001M'']
       ''county'' \<lparr>etl_requests = [([''X_001E'', ''X_001M''], ''tract'')], etl_saved = []\<rparr> =
     (\<lparr>etl_requests = [([''X_001E'', ''X_001M''], ''tract''), ([''X_001E'', ''X_001M''], ''county'')],
        etl_saved =
          [(''Bronze.census_acs2022_X_county'', Some ''state'',
            Frame None [Pos 0]
              [(''FIPS'', [Obj (Text ''06037'')]),
               (''state'', [Num (Fin 6)]), (''county'', [Num (Fin 37)]),
               (''tract'', [Num (Fin 101110)]), (''X_001E'', [Num (Fin 4219)])])]\<rparr>,
      None)"
  by (simp add: etl_unit_def fetch_geo_data_def chunk_vars_two standardize_first_def eval_std
      failing_tract_service_def one_tract_frame_def empty_lakehouse_def moe_codes_def
      str_replace_def cv_step_def reset_index_def geometry_wkt_def target_table_name_def)

end
